theory Spec2Isabelle
  imports Complex_Main
begin

section \<open>The C library as seen by the interpreter\<close>

text \<open>
  The evaluator keeps every number as a C \<open>double\<close> and every stored value as text. The
  type \<open>'n\<close> stands for \<open>double\<close>; what the interpreter asks of the C library and of the
  floating-point unit is collected in one record, passed to every function that needs it:
  \<^item> \<open>atof\<close>: text to number;
  \<^item> \<open>fmt_g\<close>: the text written by \<open>snprintf(buf, MAX_TOKEN_LENGTH, "%g", x)\<close>;
  \<^item> \<open>d_add\<close>, \<open>d_sub\<close>, \<open>d_mul\<close>, \<open>d_div\<close>: the four arithmetic operators on doubles;
  \<^item> \<open>d_lt\<close>, \<open>d_le\<close>, \<open>d_eq\<close>: the comparisons \<open><\<close>, \<open><=\<close>, \<open>==\<close> (the other three are their
    mirror images and the negation of \<open>==\<close>);
  \<^item> \<open>of_i\<close>: the conversion of an \<open>int\<close> to a double;
  \<^item> \<open>to_i\<close>: the cast \<open>(int) x\<close>, \<open>None\<close> where C leaves the cast undefined.
  Strings are assumed to fit their \<open>MAX_TOKEN_LENGTH\<close> buffers.
\<close>

record 'n libc =
  atof :: "string \<Rightarrow> 'n"
  fmt_g :: "'n \<Rightarrow> string"
  d_add :: "'n \<Rightarrow> 'n \<Rightarrow> 'n"
  d_sub :: "'n \<Rightarrow> 'n \<Rightarrow> 'n"
  d_mul :: "'n \<Rightarrow> 'n \<Rightarrow> 'n"
  d_div :: "'n \<Rightarrow> 'n \<Rightarrow> 'n"
  d_lt :: "'n \<Rightarrow> 'n \<Rightarrow> bool"
  d_le :: "'n \<Rightarrow> 'n \<Rightarrow> bool"
  d_eq :: "'n \<Rightarrow> 'n \<Rightarrow> bool"
  of_i :: "int \<Rightarrow> 'n"
  to_i :: "'n \<Rightarrow> int option"

definition isdigit :: "char \<Rightarrow> bool" where
  "isdigit c \<longleftrightarrow> c \<in> set ''0123456789''"

text \<open>
  The test \<open>isdigit(v[0]) || (v[0] == '-' && isdigit(v[1]))\<close> that the evaluator applies
  to a literal and to a stored value; the terminating NUL of a short string is no digit.
\<close>

fun is_number_text :: "string \<Rightarrow> bool" where
  "is_number_text [] = False"
| "is_number_text [c] = isdigit c"
| "is_number_text (c # d # cs) = (isdigit c \<or> (c = CHR ''-'' \<and> isdigit d))"

text \<open>The remainder of C's \<open>%\<close> on \<open>int\<close>: the quotient is truncated toward zero.\<close>

definition c_rem :: "int \<Rightarrow> int \<Rightarrow> int" where
  "c_rem a b = sgn a * (\<bar>a\<bar> mod \<bar>b\<bar>)"

definition INT_MIN :: int where
  "INT_MIN = - 2147483648"

fun show_nat :: "nat \<Rightarrow> string" where
  "show_nat n = (if n < 10 then [''0123456789'' ! n]
                 else show_nat (n div 10) @ [''0123456789'' ! (n mod 10)])"

declare show_nat.simps [simp del]

definition quoted :: "string \<Rightarrow> string" where
  "quoted s = [CHR 0x27] @ s @ [CHR 0x27]"

section \<open>Data model (kvlang\_internals.h)\<close>

datatype eval_context = EVAL_ARITHMETIC | EVAL_PRINT

datatype operator_type =
  OP_ADD | OP_SUBTRACT | OP_MULTIPLY | OP_DIVIDE | OP_LESS_THAN | OP_GREATER_THAN
| OP_EQUAL | OP_NOT_EQUAL | OP_LESS_EQUAL | OP_GREATER_EQUAL

text \<open>
  \<open>struct ASTNode\<close>: the tag \<open>type\<close> together with the member of the union \<open>data\<close> that
  the tag selects is the \<open>node_kind\<close>; the three links \<open>left\<close>, \<open>right\<close>, \<open>nextblock\<close> are
  kept as they are, a NULL pointer being \<open>None\<close>. The parser chains the statements of a
  block through \<open>nextblock\<close> and the arguments of a call, as well as the parameters of a
  definition, through \<open>right\<close>.
\<close>

datatype ast_node =
  ASTNode (kind: node_kind) (left: "ast_node option") (right: "ast_node option")
          (nextblock: "ast_node option")
and node_kind =
  AST_PRINT
| AST_LITERAL string
| AST_IDENTIFIER string
| AST_ASSIGNMENT
| AST_ARRAY_ACCESS string
| AST_BINARY_OP operator_type
| AST_IF_STATEMENT "ast_node option" "ast_node option" "ast_node option"
| AST_BLOCK
| AST_FOR_STATEMENT string "ast_node option" "ast_node option"
| AST_WHILE_STATEMENT "ast_node option" "ast_node option"
| AST_FUNCTION_DEFINITION string "ast_node option" "ast_node option"
| AST_FUNCTION_CALL string "ast_node option"
| AST_RETURN_STATEMENT "ast_node option"

text \<open>The value of the enumeration constant, as \<open>printf("%d", node->type)\<close> shows it.\<close>

fun type_number :: "node_kind \<Rightarrow> nat" where
  "type_number AST_PRINT = 0"
| "type_number (AST_LITERAL _) = 1"
| "type_number (AST_IDENTIFIER _) = 2"
| "type_number AST_ASSIGNMENT = 3"
| "type_number (AST_ARRAY_ACCESS _) = 4"
| "type_number (AST_BINARY_OP _) = 5"
| "type_number (AST_IF_STATEMENT _ _ _) = 6"
| "type_number AST_BLOCK = 7"
| "type_number (AST_FOR_STATEMENT _ _ _) = 8"
| "type_number (AST_WHILE_STATEMENT _ _) = 9"
| "type_number (AST_FUNCTION_DEFINITION _ _ _) = 10"
| "type_number (AST_FUNCTION_CALL _ _) = 11"
| "type_number (AST_RETURN_STATEMENT _) = 12"

text \<open>
  \<open>node->data.identifier\<close>: the character array at the start of the union. The members
  that begin with a name share its bytes; for the others the read is of bytes that are
  no string, and the model has no value for it.
\<close>

fun data_identifier :: "ast_node \<Rightarrow> string option" where
  "data_identifier (ASTNode (AST_LITERAL t) _ _ _) = Some t"
| "data_identifier (ASTNode (AST_IDENTIFIER t) _ _ _) = Some t"
| "data_identifier (ASTNode (AST_ARRAY_ACCESS t) _ _ _) = Some t"
| "data_identifier (ASTNode (AST_FOR_STATEMENT t _ _) _ _ _) = Some t"
| "data_identifier (ASTNode (AST_FUNCTION_DEFINITION t _ _) _ _ _) = Some t"
| "data_identifier (ASTNode (AST_FUNCTION_CALL t _) _ _ _) = Some t"
| "data_identifier _ = None"

text \<open>
  \<open>AssocArray\<close>: the \<open>size\<close> live entries of \<open>pairs\<close>, in order; \<open>size\<close> is the length of
  the list. The capacity and the bytes behind the live entries are not modelled.
\<close>

type_synonym assoc_array = "(string \<times> string) list"

record variable =
  name :: string
  array :: assoc_array

text \<open>
  An \<open>AssocArray *\<close> held by an evaluation result points either at the array of a slot of
  \<open>variables[]\<close>, and then shows whatever that slot holds when the pointer is followed, or
  at an array of its own (the copy made by \<open>return\<close>, the temporary of a for loop).
\<close>

datatype array_ptr = Var_slot nat | Own_array assoc_array

datatype 'n eval_result =
  RESULT_STRING string
| RESULT_NUMBER 'n
| RESULT_ASSOC_ARRAY array_ptr

record 'n function_return =
  has_return :: bool
  ret :: "'n eval_result"

record function_entry =
  fname :: string
  parameters :: "ast_node option"
  body :: "ast_node option"

definition MAX_VARIABLES :: nat where "MAX_VARIABLES = 100"
definition MAX_SCOPES :: nat where "MAX_SCOPES = 100"
definition MAX_FUNC_PARAMS :: nat where "MAX_FUNC_PARAMS = 10"

text \<open>
  The globals of main.c. The arrays \<open>variables[]\<close>, \<open>scope_variables_stack[][]\<close> and
  \<open>scope_count_stack[]\<close> are maps from an index to the element stored there, so that
  what lies beyond \<open>variable_count\<close> or \<open>scope_depth\<close> is kept, as in memory. A slot
  holds its array by value: the buffer behind \<open>pairs\<close>, which a slot saved by \<open>push_scope\<close>
  shares with the slot it was copied from, is not a separate object of the model.
  \<open>function_table\<close> is \<open>functions[]\<close>, filled by the parser (\<open>function_count\<close> is its
  length). \<open>stdout\<close> is what was printed, one entry a line.
\<close>

record state =
  variables :: "nat \<Rightarrow> variable"
  variable_count :: nat
  scope_variables_stack :: "nat \<Rightarrow> nat \<Rightarrow> variable"
  scope_count_stack :: "nat \<Rightarrow> nat"
  scope_depth :: nat
  function_table :: "function_entry list"
  stdout :: "string list"

definition printf :: "string \<Rightarrow> state \<Rightarrow> state" where
  "printf line s = s\<lparr>stdout := stdout s @ [line]\<rparr>"

section \<open>Associative arrays and variables\<close>

fun set_assoc_array_value :: "assoc_array \<Rightarrow> string \<Rightarrow> string \<Rightarrow> assoc_array" where
  "set_assoc_array_value [] k v = [(k, v)]"
| "set_assoc_array_value ((k', v') # ps) k v =
     (if k' = k then (k', v) # ps else (k', v') # set_assoc_array_value ps k v)"

fun get_assoc_array_value :: "assoc_array \<Rightarrow> string \<Rightarrow> string option" where
  "get_assoc_array_value [] k = None"
| "get_assoc_array_value ((k', v') # ps) k =
     (if k' = k then Some v' else get_assoc_array_value ps k)"

text \<open>The loop \<open>for (i = 0; i < variable_count; i++)\<close> over the slots, from slot \<open>i\<close> on.\<close>

fun find_slot :: "(nat \<Rightarrow> variable) \<Rightarrow> string \<Rightarrow> nat \<Rightarrow> nat \<Rightarrow> nat option" where
  "find_slot vars nm i 0 = None"
| "find_slot vars nm i (Suc k) =
     (if name (vars i) = nm then Some i else find_slot vars nm (Suc i) k)"

definition get_variable :: "state \<Rightarrow> string \<Rightarrow> nat option" where
  "get_variable s nm = find_slot (variables s) nm 0 (variable_count s)"

definition deref :: "state \<Rightarrow> array_ptr \<Rightarrow> assoc_array" where
  "deref s p = (case p of Var_slot j \<Rightarrow> array (variables s j) | Own_array a \<Rightarrow> a)"

definition set_variable_value :: "string \<Rightarrow> string option \<Rightarrow> string \<Rightarrow> state \<Rightarrow> state" where
  "set_variable_value nm key val s =
     (let k = (case key of None \<Rightarrow> [] | Some k' \<Rightarrow> k') in
      case get_variable s nm of
        None \<Rightarrow>
          if variable_count s \<ge> MAX_VARIABLES
          then printf ''Error: Maximum number of variables reached'' s
          else s\<lparr>variables := (variables s)(variable_count s :=
                     \<lparr>name = nm, array = set_assoc_array_value [] k val\<rparr>),
                  variable_count := Suc (variable_count s)\<rparr>
      | Some i \<Rightarrow>
          s\<lparr>variables := (variables s)(i :=
               (variables s i)\<lparr>array := set_assoc_array_value (array (variables s i)) k val\<rparr>)\<rparr>)"

definition clear_variable_assoc_array :: "string \<Rightarrow> state \<Rightarrow> state" where
  "clear_variable_assoc_array nm s =
     (case get_variable s nm of
        None \<Rightarrow> s
      | Some i \<Rightarrow> s\<lparr>variables := (variables s)(i := (variables s i)\<lparr>array := []\<rparr>)\<rparr>)"

text \<open>
  \<open>set_variable_assoc_array\<close> empties (or creates) the target first and reads the source
  through its pointer afterwards, entry by entry: a source that is the target's own slot
  is empty by then.
\<close>

definition copy_entries :: "assoc_array \<Rightarrow> assoc_array" where
  "copy_entries src = foldl (\<lambda>a (k, v). set_assoc_array_value a k v) [] src"

definition set_variable_assoc_array :: "string \<Rightarrow> array_ptr \<Rightarrow> state \<Rightarrow> state" where
  "set_variable_assoc_array nm p s =
     (case get_variable s nm of
        None \<Rightarrow>
          if variable_count s \<ge> MAX_VARIABLES
          then printf ''Error: Maximum number of variables reached'' s
          else
            (let i = variable_count s;
                 s1 = s\<lparr>variables := (variables s)(i := \<lparr>name = nm, array = []\<rparr>),
                        variable_count := Suc i\<rparr>
             in s1\<lparr>variables := (variables s1)(i :=
                     (variables s1 i)\<lparr>array := copy_entries (deref s1 p)\<rparr>)\<rparr>)
      | Some i \<Rightarrow>
          (let s1 = s\<lparr>variables := (variables s)(i := (variables s i)\<lparr>array := []\<rparr>)\<rparr>
           in s1\<lparr>variables := (variables s1)(i :=
                   (variables s1 i)\<lparr>array := copy_entries (deref s1 p)\<rparr>)\<rparr>))"

section \<open>Scopes\<close>

definition push_scope :: "state \<Rightarrow> state" where
  "push_scope s =
     (if scope_depth s \<ge> MAX_SCOPES then printf ''Error: Scope stack overflow'' s
      else s\<lparr>scope_variables_stack := (scope_variables_stack s)(scope_depth s := variables s),
             scope_count_stack := (scope_count_stack s)(scope_depth s := variable_count s),
             scope_depth := Suc (scope_depth s),
             variable_count := 0\<rparr>)"

text \<open>
  In \<open>pop_scope\<close> the statement \<open>int variable_count = scope_count_stack[--scope_depth];\<close>
  declares a local variable: the saved count is read into it and dropped, and the global
  \<open>variable_count\<close> keeps the value it has.
\<close>

definition pop_scope :: "state \<Rightarrow> state" where
  "pop_scope s =
     (if scope_depth s \<le> 0 then printf ''Error: Scope stack underflow'' s
      else s\<lparr>scope_depth := scope_depth s - 1,
             variables := scope_variables_stack s (scope_depth s - 1)\<rparr>)"

section \<open>Expression evaluation and function calls\<close>

text \<open>
  The evaluator is recursive without bound (a user function may call itself, a loop may
  run forever). The recursion is therefore cut at a depth: each function below is
  written as in the source, and where the source calls \<open>evaluate_expression\<close>,
  \<open>execute_function_call\<close>, \<open>execute_block\<close>, or goes round a \<open>while\<close> or \<open>for\<close> loop
  once more, the model calls the matching field of a record \<open>K\<close> of "the same functions,
  one level further down". \<open>bounded n L\<close> (at the end of the section) ties the knot:
  at depth 0 every field answers \<open>None\<close>, at depth \<open>Suc n\<close> it is the function of this file
  run with \<open>bounded n L\<close>.

  The result \<open>None\<close> means that the C function does not return a value here: the depth is
  used up, or the C code has no defined behaviour (a read through a NULL link, of a
  union member other than the stored one, of an entry of an empty array, a write behind
  \<open>args[]\<close>, an integer remainder with no value, an expression node that
  \<open>evaluate_expression\<close> leaves without a \<open>return\<close>).

  \<open>evaluate_expression\<close> returns 0 or 1 and fills \<open>*result\<close> in the second case: the model
  returns \<open>None\<close> for 0 and \<open>Some\<close> of the result for 1, together with the new state.
\<close>

record 'n rec_calls =
  rec_evaluate_expression ::
    "ast_node option \<Rightarrow> eval_context \<Rightarrow> state \<Rightarrow> ('n eval_result option \<times> state) option"
  rec_execute_function_call ::
    "ast_node \<Rightarrow> state \<Rightarrow> ('n function_return \<times> state) option"
  rec_execute_block :: "ast_node option \<Rightarrow> state \<Rightarrow> state option"
  rec_execute_while_statement :: "ast_node option \<Rightarrow> state \<Rightarrow> state option"
  rec_for_loop :: "string \<Rightarrow> array_ptr \<Rightarrow> ast_node option \<Rightarrow> nat \<Rightarrow> state \<Rightarrow> state option"

text \<open>The value that a literal, a variable or an array element holds as text.\<close>

definition text_result :: "'n libc \<Rightarrow> string \<Rightarrow> 'n eval_result" where
  "text_result L v =
     (if is_number_text v then RESULT_NUMBER (atof L v) else RESULT_STRING v)"

text \<open>The key that a string or number index stands for; an array is no index.\<close>

fun key_text :: "'n libc \<Rightarrow> 'n eval_result \<Rightarrow> string" where
  "key_text L (RESULT_NUMBER x) = fmt_g L x"
| "key_text L (RESULT_STRING t) = t"
| "key_text L (RESULT_ASSOC_ARRAY p) = []"

definition truth :: "'n libc \<Rightarrow> bool \<Rightarrow> 'n" where
  "truth L b = (if b then of_i L 1 else of_i L 0)"

fun binary_op :: "'n libc \<Rightarrow> operator_type \<Rightarrow> 'n \<Rightarrow> 'n \<Rightarrow> 'n" where
  "binary_op L OP_ADD a b = d_add L a b"
| "binary_op L OP_SUBTRACT a b = d_sub L a b"
| "binary_op L OP_MULTIPLY a b = d_mul L a b"
| "binary_op L OP_DIVIDE a b = d_div L a b"
| "binary_op L OP_LESS_THAN a b = truth L (d_lt L a b)"
| "binary_op L OP_GREATER_THAN a b = truth L (d_lt L b a)"
| "binary_op L OP_EQUAL a b = truth L (d_eq L a b)"
| "binary_op L OP_NOT_EQUAL a b = truth L (\<not> d_eq L a b)"
| "binary_op L OP_LESS_EQUAL a b = truth L (d_le L a b)"
| "binary_op L OP_GREATER_EQUAL a b = truth L (d_le L b a)"

definition is_arithmetic_operator :: "operator_type \<Rightarrow> bool" where
  "is_arithmetic_operator op \<longleftrightarrow>
     op = OP_ADD \<or> op = OP_SUBTRACT \<or> op = OP_MULTIPLY \<or> op = OP_DIVIDE"

text \<open>\<open>FunctionReturn result = {0}\<close>, and the result "number 0" built in many places.\<close>

definition no_return :: "'n function_return" where
  "no_return = \<lparr>has_return = False, ret = RESULT_STRING []\<rparr>"

definition return_value :: "'n eval_result \<Rightarrow> 'n function_return" where
  "return_value v = \<lparr>has_return = True, ret = v\<rparr>"

definition return_zero :: "'n libc \<Rightarrow> 'n function_return" where
  "return_zero L = return_value (RESULT_NUMBER (of_i L 0))"

fun find_function_from :: "function_entry list \<Rightarrow> string \<Rightarrow> nat \<Rightarrow> nat option" where
  "find_function_from [] nm i = None"
| "find_function_from (f # fs) nm i =
     (if fname f = nm then Some i else find_function_from fs nm (Suc i))"

definition find_function :: "state \<Rightarrow> string \<Rightarrow> nat option" where
  "find_function s nm = find_function_from (function_table s) nm 0"

definition set_variable_from_eval_result ::
  "'n libc \<Rightarrow> string \<Rightarrow> 'n eval_result \<Rightarrow> state \<Rightarrow> state" where
  "set_variable_from_eval_result L nm r s =
     (case r of
        RESULT_NUMBER x \<Rightarrow> set_variable_value nm None (fmt_g L x) s
      | RESULT_STRING t \<Rightarrow> set_variable_value nm None t s
      | RESULT_ASSOC_ARRAY p \<Rightarrow> set_variable_assoc_array nm p s)"

text \<open>
  The two binding loops of \<open>execute_function_call\<close>: the evaluated arguments go to the
  first parameters, and each parameter left over is bound to the text \<open>"0"\<close>.
\<close>

fun bind_arguments ::
  "'n libc \<Rightarrow> ast_node option \<Rightarrow> 'n eval_result list \<Rightarrow> state \<Rightarrow> (ast_node option \<times> state) option" where
  "bind_arguments L param [] s = Some (param, s)"
| "bind_arguments L None (a # as) s = None"
| "bind_arguments L (Some p) (a # as) s =
     (case data_identifier p of
        None \<Rightarrow> None
      | Some nm \<Rightarrow> bind_arguments L (right p) as (set_variable_from_eval_result L nm a s))"

fun bind_missing :: "ast_node option \<Rightarrow> state \<Rightarrow> state option" where
  "bind_missing None s = Some s"
| "bind_missing (Some (ASTNode k l r nb)) s =
     (case data_identifier (ASTNode k l r nb) of
        None \<Rightarrow> None
      | Some nm \<Rightarrow> bind_missing r (set_variable_value nm None ''0'' s))"

fun join_pairs :: "assoc_array \<Rightarrow> string" where
  "join_pairs [] = []"
| "join_pairs [(k, v)] = ''\"'' @ k @ ''\": \"'' @ v @ ''\"''"
| "join_pairs ((k, v) # p # ps) = ''\"'' @ k @ ''\": \"'' @ v @ ''\", '' @ join_pairs (p # ps)"

definition print_assoc_array :: "assoc_array \<Rightarrow> state \<Rightarrow> state" where
  "print_assoc_array a s = printf (''{'' @ join_pairs a @ ''}'') s"

definition evaluate_expression ::
  "'n rec_calls \<Rightarrow> 'n libc \<Rightarrow> ast_node option \<Rightarrow> eval_context \<Rightarrow> state
     \<Rightarrow> ('n eval_result option \<times> state) option" where
  "evaluate_expression K L node_opt context s =
     (case node_opt of
        None \<Rightarrow> Some (None, s)
      | Some node \<Rightarrow>
     (case kind node of
        AST_LITERAL sv \<Rightarrow> Some (Some (text_result L sv), s)
      | AST_IDENTIFIER nm \<Rightarrow>
          (case get_variable s nm of
             Some j \<Rightarrow>
               (case context of
                  EVAL_ARITHMETIC \<Rightarrow>
                    if length (array (variables s j)) = 1
                    then Some (Some (text_result L (snd (hd (array (variables s j))))), s)
                    else Some (Some (RESULT_ASSOC_ARRAY (Var_slot j)), s)
                | EVAL_PRINT \<Rightarrow>
                    if length (array (variables s j)) = 1
                    then Some (Some (RESULT_STRING (snd (hd (array (variables s j))))), s)
                    else Some (Some (RESULT_ASSOC_ARRAY (Var_slot j)), s))
           | None \<Rightarrow> Some (None, printf (''Error: Undefined variable '' @ quoted nm) s))
      | AST_ARRAY_ACCESS nm \<Rightarrow>
          (case rec_evaluate_expression K (left node) EVAL_ARITHMETIC s of
             None \<Rightarrow> None
           | Some (None, s1) \<Rightarrow> Some (None, printf ''Error: Failed to evaluate array index'' s1)
           | Some (Some key_result, s1) \<Rightarrow>
               (case key_result of
                  RESULT_ASSOC_ARRAY p \<Rightarrow>
                    Some (None, printf ''Error: Array index must be a string or number'' s1)
                | _ \<Rightarrow>
                    (case get_variable s1 nm of
                       None \<Rightarrow> Some (None, printf (''Error: Undefined variable '' @ quoted nm) s1)
                     | Some j \<Rightarrow>
                         (case get_assoc_array_value (array (variables s1 j)) (key_text L key_result) of
                            Some val \<Rightarrow> Some (Some (text_result L val), s1)
                          | None \<Rightarrow>
                              Some (None, printf (''Error: Key '' @ quoted (key_text L key_result)
                                     @ '' not found in variable '' @ quoted nm) s1)))))
      | AST_BINARY_OP op \<Rightarrow>
          (case rec_evaluate_expression K (left node)
                  (if is_arithmetic_operator op then EVAL_ARITHMETIC else context) s of
             None \<Rightarrow> None
           | Some (None, s1) \<Rightarrow> Some (None, s1)
           | Some (Some left_result, s1) \<Rightarrow>
               (case rec_evaluate_expression K (right node)
                       (if is_arithmetic_operator op then EVAL_ARITHMETIC else context) s1 of
                  None \<Rightarrow> None
                | Some (None, s2) \<Rightarrow> Some (None, s2)
                | Some (Some right_result, s2) \<Rightarrow>
                    (case left_result of
                       RESULT_NUMBER a \<Rightarrow>
                         (case right_result of
                            RESULT_NUMBER b \<Rightarrow> Some (Some (RESULT_NUMBER (binary_op L op a b)), s2)
                          | _ \<Rightarrow> Some (None, printf
                              ''Error: Both operands must be numbers for arithmetic or relational operations'' s2))
                     | _ \<Rightarrow> Some (None, printf
                         ''Error: Both operands must be numbers for arithmetic or relational operations'' s2))))
      | AST_FUNCTION_CALL fn arguments \<Rightarrow>
          (case rec_execute_function_call K node s of
             None \<Rightarrow> None
           | Some (call_res, s1) \<Rightarrow>
               Some (Some (if \<not> has_return call_res then RESULT_NUMBER (of_i L 0) else ret call_res), s1))
      | _ \<Rightarrow> None))"

text \<open>
  The loop \<open>while (param != NULL && arg != NULL)\<close> of \<open>execute_function_call\<close>, which fills
  \<open>args[argc++]\<close>; on a failed argument it prints and the caller returns at once.
\<close>

fun evaluate_arguments ::
  "'n rec_calls \<Rightarrow> ast_node option \<Rightarrow> ast_node option \<Rightarrow> 'n eval_result list \<Rightarrow> state
     \<Rightarrow> ('n eval_result list option \<times> state) option" where
  "evaluate_arguments K None arg args s = Some (Some args, s)"
| "evaluate_arguments K (Some p) None args s = Some (Some args, s)"
| "evaluate_arguments K (Some (ASTNode pk pl pr pn)) (Some (ASTNode ak al ar an)) args s =
     (case rec_evaluate_expression K (Some (ASTNode ak al ar an)) EVAL_ARITHMETIC s of
        None \<Rightarrow> None
      | Some (None, s1) \<Rightarrow> Some (None, printf ''Error: Failed to evaluate argument'' s1)
      | Some (Some arg_val, s1) \<Rightarrow>
          if length args \<ge> MAX_FUNC_PARAMS then None
          else evaluate_arguments K pr ar (args @ [arg_val]) s1)"

definition kvstdlib_len ::
  "'n rec_calls \<Rightarrow> 'n libc \<Rightarrow> ast_node option \<Rightarrow> state \<Rightarrow> ('n function_return \<times> state) option" where
  "kvstdlib_len K L arg s =
     (case arg of
        None \<Rightarrow> Some (return_zero L, printf ''Error: len() requires exactly one argument'' s)
      | Some a \<Rightarrow>
          if right a \<noteq> None
          then Some (return_zero L, printf ''Error: len() requires exactly one argument'' s)
          else
            (case rec_evaluate_expression K arg EVAL_PRINT s of
               None \<Rightarrow> None
             | Some (None, s1) \<Rightarrow>
                 Some (return_zero L, printf ''Error: Failed to evaluate argument in len()'' s1)
             | Some (Some arg_val, s1) \<Rightarrow>
                 Some (return_value (RESULT_NUMBER (of_i L
                         (case arg_val of
                            RESULT_ASSOC_ARRAY p \<Rightarrow> int (length (deref s1 p))
                          | _ \<Rightarrow> 1))), s1)))"

definition kvstdlib_key ::
  "'n rec_calls \<Rightarrow> 'n libc \<Rightarrow> ast_node option \<Rightarrow> state \<Rightarrow> ('n function_return \<times> state) option" where
  "kvstdlib_key K L arg s =
     (case arg of
        None \<Rightarrow>
          Some (return_value (RESULT_STRING []),
                printf ''Error: key() requires exactly one argument'' s)
      | Some a \<Rightarrow>
          if right a \<noteq> None
          then Some (return_value (RESULT_STRING []),
                     printf ''Error: key() requires exactly one argument'' s)
          else
            (case kind a of
               AST_IDENTIFIER nm \<Rightarrow>
                 (case get_variable s nm of
                    Some j \<Rightarrow>
                      (case array (variables s j) of
                         [] \<Rightarrow> None
                       | kv # _ \<Rightarrow> Some (return_value (RESULT_STRING (fst kv)), s))
                  | None \<Rightarrow> Some (return_value (RESULT_STRING []), s))
             | AST_ARRAY_ACCESS nm \<Rightarrow>
                 (case rec_evaluate_expression K (left a) EVAL_ARITHMETIC s of
                    None \<Rightarrow> None
                  | Some (None, s1) \<Rightarrow>
                      Some (return_value (RESULT_STRING []),
                            printf ''Error: Failed to evaluate array index'' s1)
                  | Some (Some key_result, s1) \<Rightarrow>
                      (case key_result of
                         RESULT_ASSOC_ARRAY p \<Rightarrow>
                           Some (return_value (RESULT_STRING []),
                                 printf ''Error: Array index must be a string or number'' s1)
                       | _ \<Rightarrow> Some (return_value (RESULT_STRING (key_text L key_result)), s1)))
             | _ \<Rightarrow> Some (return_value (RESULT_STRING []), s)))"

definition kvstdlib_mod ::
  "'n rec_calls \<Rightarrow> 'n libc \<Rightarrow> ast_node option \<Rightarrow> state \<Rightarrow> ('n function_return \<times> state) option" where
  "kvstdlib_mod K L arg s =
     (case arg of
        None \<Rightarrow> Some (return_zero L, printf ''Error: mod() requires exactly two argument'' s)
      | Some a \<Rightarrow>
          if right a = None
          then Some (return_zero L, printf ''Error: mod() requires exactly two argument'' s)
          else
            (case rec_evaluate_expression K arg EVAL_ARITHMETIC s of
               None \<Rightarrow> None
             | Some (None, s1) \<Rightarrow>
                 Some (return_zero L, printf ''Error: Failed to evaluate 1st argument in mod()'' s1)
             | Some (Some arg_val1, s1) \<Rightarrow>
                 (case rec_evaluate_expression K (right a) EVAL_ARITHMETIC s1 of
                    None \<Rightarrow> None
                  | Some (None, s2) \<Rightarrow>
                      Some (return_zero L,
                            printf ''Error: Failed to evaluate 2nd argument in mod()'' s2)
                  | Some (Some arg_val2, s2) \<Rightarrow>
                      (case arg_val1 of
                         RESULT_NUMBER x \<Rightarrow>
                           (case arg_val2 of
                              RESULT_NUMBER y \<Rightarrow>
                                (case to_i L x of
                                   None \<Rightarrow> None
                                 | Some i \<Rightarrow>
                                     (case to_i L y of
                                        None \<Rightarrow> None
                                      | Some j \<Rightarrow>
                                          if j = 0 \<or> (i = INT_MIN \<and> j = - 1) then None
                                          else Some (return_value
                                                 (RESULT_NUMBER (of_i L (c_rem i j))), s2)))
                            | _ \<Rightarrow> Some (return_zero L, s2))
                       | _ \<Rightarrow> Some (return_zero L, s2)))))"

definition execute_assignment ::
  "'n rec_calls \<Rightarrow> 'n libc \<Rightarrow> ast_node option \<Rightarrow> state \<Rightarrow> state option" where
  "execute_assignment K L node_opt s =
     (case node_opt of
        None \<Rightarrow> Some s
      | Some node \<Rightarrow>
     (case kind node of
        AST_ASSIGNMENT \<Rightarrow>
          (case rec_evaluate_expression K (right node) EVAL_ARITHMETIC s of
             None \<Rightarrow> None
           | Some (None, s1) \<Rightarrow> Some (printf ''Error: Failed to evaluate expression in assignment'' s1)
           | Some (Some result, s1) \<Rightarrow>
               (case left node of
                  None \<Rightarrow> None
                | Some target \<Rightarrow>
                    (case kind target of
                       AST_IDENTIFIER nm \<Rightarrow>
                         (case result of
                            RESULT_STRING t \<Rightarrow> Some (set_variable_value nm None t s1)
                          | RESULT_NUMBER x \<Rightarrow> Some (set_variable_value nm None (fmt_g L x) s1)
                          | RESULT_ASSOC_ARRAY p \<Rightarrow> Some (set_variable_assoc_array nm p s1))
                     | AST_ARRAY_ACCESS nm \<Rightarrow>
                         (case rec_evaluate_expression K (left target) EVAL_PRINT s1 of
                            None \<Rightarrow> None
                          | Some (None, s2) \<Rightarrow> Some (printf ''Error: Failed to evaluate array index'' s2)
                          | Some (Some key_result, s2) \<Rightarrow>
                              (case key_result of
                                 RESULT_ASSOC_ARRAY p \<Rightarrow>
                                   Some (printf ''Assignment Error: Array index must be a string or number'' s2)
                               | _ \<Rightarrow>
                                   (case result of
                                      RESULT_STRING t \<Rightarrow>
                                        Some (set_variable_value nm (Some (key_text L key_result)) t s2)
                                    | RESULT_NUMBER x \<Rightarrow>
                                        Some (set_variable_value nm (Some (key_text L key_result))
                                                (fmt_g L x) s2)
                                    | RESULT_ASSOC_ARRAY p \<Rightarrow>
                                        Some (printf
                                          ''Error: Cannot assign an associative array to an array element'' s2))))
                     | _ \<Rightarrow> Some (printf ''Error: Invalid assignment target'' s1))))
      | _ \<Rightarrow> Some s))"

definition evaluate_and_print ::
  "'n rec_calls \<Rightarrow> 'n libc \<Rightarrow> ast_node option \<Rightarrow> state \<Rightarrow> state option" where
  "evaluate_and_print K L node s =
     (case rec_evaluate_expression K node EVAL_PRINT s of
        None \<Rightarrow> None
      | Some (None, s1) \<Rightarrow> Some s1
      | Some (Some result, s1) \<Rightarrow>
          (case result of
             RESULT_STRING t \<Rightarrow> Some (printf t s1)
           | RESULT_NUMBER x \<Rightarrow> Some (printf (fmt_g L x) s1)
           | RESULT_ASSOC_ARRAY p \<Rightarrow> Some (print_assoc_array (deref s1 p) s1)))"

definition execute_ast_with_return ::
  "'n rec_calls \<Rightarrow> 'n libc \<Rightarrow> ast_node option \<Rightarrow> state \<Rightarrow> ('n function_return \<times> state) option" where
  "execute_ast_with_return K L node_opt s =
     (case node_opt of
        None \<Rightarrow> Some (no_return, s)
      | Some node \<Rightarrow>
     (case kind node of
        AST_PRINT \<Rightarrow>
          (case evaluate_and_print K L (left node) s of
             None \<Rightarrow> None
           | Some s1 \<Rightarrow> Some (no_return, s1))
      | AST_ASSIGNMENT \<Rightarrow>
          (case execute_assignment K L (Some node) s of
             None \<Rightarrow> None
           | Some s1 \<Rightarrow> Some (no_return, s1))
      | AST_FUNCTION_DEFINITION fn ps b \<Rightarrow> Some (no_return, s)
      | AST_FUNCTION_CALL fn arguments \<Rightarrow>
          (case rec_execute_function_call K node s of
             None \<Rightarrow> None
           | Some (call_res, s1) \<Rightarrow> Some (no_return, s1))
      | AST_RETURN_STATEMENT expression \<Rightarrow>
          (case rec_evaluate_expression K expression EVAL_ARITHMETIC s of
             None \<Rightarrow> None
           | Some (None, s1) \<Rightarrow>
               Some (return_zero L, printf ''Error: Failed to evaluate return expression'' s1)
           | Some (Some val, s1) \<Rightarrow>
               (case val of
                  RESULT_ASSOC_ARRAY p \<Rightarrow>
                    Some (return_value (RESULT_ASSOC_ARRAY (Own_array (deref s1 p))), s1)
                | _ \<Rightarrow> Some (return_value val, s1)))
      | _ \<Rightarrow>
          Some (no_return,
                printf ''Error: While executing the AST (with return) - Unknown AST node type'' s)))"

fun execute_block_with_return ::
  "'n rec_calls \<Rightarrow> 'n libc \<Rightarrow> ast_node option \<Rightarrow> state \<Rightarrow> ('n function_return \<times> state) option" where
  "execute_block_with_return K L None s = Some (no_return, s)"
| "execute_block_with_return K L (Some (ASTNode k l r nb)) s =
     (case execute_ast_with_return K L (Some (ASTNode k l r nb)) s of
        None \<Rightarrow> None
      | Some (stmt_result, s1) \<Rightarrow>
          if has_return stmt_result then Some (stmt_result, s1)
          else execute_block_with_return K L nb s1)"

definition execute_function_call ::
  "'n rec_calls \<Rightarrow> 'n libc \<Rightarrow> ast_node \<Rightarrow> state \<Rightarrow> ('n function_return \<times> state) option" where
  "execute_function_call K L call_node s =
     (case kind call_node of
        AST_FUNCTION_CALL fn arguments \<Rightarrow>
          if fn = ''len'' then kvstdlib_len K L arguments s
          else if fn = ''key'' then kvstdlib_key K L arguments s
          else if fn = ''mod'' then kvstdlib_mod K L arguments s
          else if fn = ''bar'' then Some (return_value (RESULT_STRING []), s)
          else
            (case find_function s fn of
               None \<Rightarrow> Some (return_zero L, printf (''Error: Undefined function '' @ quoted fn) s)
             | Some idx \<Rightarrow>
                 (case evaluate_arguments K (parameters (function_table s ! idx)) arguments [] s of
                    None \<Rightarrow> None
                  | Some (None, s1) \<Rightarrow> Some (return_zero L, pop_scope s1)
                  | Some (Some args, s1) \<Rightarrow>
                      (case bind_arguments L (parameters (function_table (push_scope s1) ! idx)) args
                              (push_scope s1) of
                         None \<Rightarrow> None
                       | Some (param, s2) \<Rightarrow>
                           (case bind_missing param s2 of
                              None \<Rightarrow> None
                            | Some s3 \<Rightarrow>
                                (case execute_block_with_return K L (body (function_table s3 ! idx)) s3 of
                                   None \<Rightarrow> None
                                 | Some (body_ret, s4) \<Rightarrow>
                                     Some (if \<not> has_return body_ret then return_zero L else body_ret,
                                           pop_scope s4))))))
      | _ \<Rightarrow> None)"

section \<open>Statements\<close>

text \<open>
  The truth of a condition. \<open>execute_if_statement\<close> accepts a number or a string and
  reports any other result as an error; \<open>execute_while_statement\<close> also accepts an
  array, true when it has an entry.
\<close>

definition execute_if_statement ::
  "'n rec_calls \<Rightarrow> 'n libc \<Rightarrow> ast_node option \<Rightarrow> state \<Rightarrow> state option" where
  "execute_if_statement K L node_opt s =
     (case node_opt of
        None \<Rightarrow> Some s
      | Some node \<Rightarrow>
     (case kind node of
        AST_IF_STATEMENT condition then_branch else_branch \<Rightarrow>
          (case rec_evaluate_expression K condition EVAL_ARITHMETIC s of
             None \<Rightarrow> None
           | Some (None, s1) \<Rightarrow> Some (printf ''Error: Failed to evaluate condition in if statement'' s1)
           | Some (Some condition_result, s1) \<Rightarrow>
               (case condition_result of
                  RESULT_NUMBER x \<Rightarrow>
                    if \<not> d_eq L x (of_i L 0) then rec_execute_block K then_branch s1
                    else if else_branch \<noteq> None then rec_execute_block K else_branch s1
                    else Some s1
                | RESULT_STRING t \<Rightarrow>
                    if length t > 0 then rec_execute_block K then_branch s1
                    else if else_branch \<noteq> None then rec_execute_block K else_branch s1
                    else Some s1
                | RESULT_ASSOC_ARRAY p \<Rightarrow>
                    Some (printf ''Error: Invalid condition type in if statement'' s1)))
      | _ \<Rightarrow> Some s))"

text \<open>
  The loop of \<open>execute_for_statement\<close>, from index \<open>i\<close> on. The array is read through
  its pointer at every turn, bound and entry alike.
\<close>

definition for_loop ::
  "'n rec_calls \<Rightarrow> string \<Rightarrow> array_ptr \<Rightarrow> ast_node option \<Rightarrow> nat \<Rightarrow> state \<Rightarrow> state option" where
  "for_loop K loop_var p loop_body i s =
     (if i < length (deref s p)
      then
        (case rec_execute_block K loop_body
                (set_variable_value loop_var (Some (fst (deref s p ! i))) (snd (deref s p ! i)) s) of
           None \<Rightarrow> None
         | Some s1 \<Rightarrow> rec_for_loop K loop_var p loop_body (Suc i) (clear_variable_assoc_array loop_var s1))
      else Some s)"

definition execute_for_statement ::
  "'n rec_calls \<Rightarrow> 'n libc \<Rightarrow> ast_node option \<Rightarrow> state \<Rightarrow> state option" where
  "execute_for_statement K L node_opt s =
     (case node_opt of
        None \<Rightarrow> Some s
      | Some node \<Rightarrow>
     (case kind node of
        AST_FOR_STATEMENT loop_var expression loop_body \<Rightarrow>
          (case rec_evaluate_expression K expression EVAL_PRINT s of
             None \<Rightarrow> None
           | Some (None, s1) \<Rightarrow> Some (printf ''Error: Failed to evaluate expression in for statement'' s1)
           | Some (Some result, s1) \<Rightarrow>
               (case result of
                  RESULT_ASSOC_ARRAY p \<Rightarrow> for_loop K loop_var p loop_body 0 s1
                | RESULT_STRING t \<Rightarrow>
                    for_loop K loop_var (Own_array (set_assoc_array_value [] [] t)) loop_body 0 s1
                | RESULT_NUMBER x \<Rightarrow>
                    for_loop K loop_var (Own_array (set_assoc_array_value [] [] (fmt_g L x))) loop_body 0 s1))
      | _ \<Rightarrow> Some s))"

definition execute_while_statement ::
  "'n rec_calls \<Rightarrow> 'n libc \<Rightarrow> ast_node option \<Rightarrow> state \<Rightarrow> state option" where
  "execute_while_statement K L node_opt s =
     (case node_opt of
        None \<Rightarrow> Some s
      | Some node \<Rightarrow>
     (case kind node of
        AST_WHILE_STATEMENT condition loop_body \<Rightarrow>
          (case rec_evaluate_expression K condition EVAL_ARITHMETIC s of
             None \<Rightarrow> None
           | Some (None, s1) \<Rightarrow>
               Some (printf ''Error: Failed to evaluate condition in while statement'' s1)
           | Some (Some condition_result, s1) \<Rightarrow>
               if (case condition_result of
                     RESULT_NUMBER x \<Rightarrow> \<not> d_eq L x (of_i L 0)
                   | RESULT_STRING t \<Rightarrow> length t > 0
                   | RESULT_ASSOC_ARRAY p \<Rightarrow> length (deref s1 p) > 0)
               then
                 (case rec_execute_block K loop_body s1 of
                    None \<Rightarrow> None
                  | Some s2 \<Rightarrow> rec_execute_while_statement K node_opt s2)
               else Some s1)
      | _ \<Rightarrow> Some s))"

definition execute_ast ::
  "'n rec_calls \<Rightarrow> 'n libc \<Rightarrow> ast_node option \<Rightarrow> state \<Rightarrow> state option" where
  "execute_ast K L node_opt s =
     (case node_opt of
        None \<Rightarrow> Some s
      | Some node \<Rightarrow>
     (case kind node of
        AST_PRINT \<Rightarrow> evaluate_and_print K L (left node) s
      | AST_ASSIGNMENT \<Rightarrow> execute_assignment K L node_opt s
      | AST_IF_STATEMENT c t e \<Rightarrow> execute_if_statement K L node_opt s
      | AST_BLOCK \<Rightarrow> rec_execute_block K node_opt s
      | AST_FOR_STATEMENT v e b \<Rightarrow> execute_for_statement K L node_opt s
      | AST_WHILE_STATEMENT c b \<Rightarrow> execute_while_statement K L node_opt s
      | AST_FUNCTION_DEFINITION fn ps b \<Rightarrow> Some s
      | AST_FUNCTION_CALL fn arguments \<Rightarrow>
          (case rec_execute_function_call K node s of
             None \<Rightarrow> None
           | Some (call_res, s1) \<Rightarrow> Some s1)
      | _ \<Rightarrow>
          Some (printf (''Error: While executing the AST - Unknown AST node type (''
                        @ show_nat (type_number (kind node)) @ '')'') s)))"

fun execute_block ::
  "'n rec_calls \<Rightarrow> 'n libc \<Rightarrow> ast_node option \<Rightarrow> state \<Rightarrow> state option" where
  "execute_block K L None s = Some s"
| "execute_block K L (Some (ASTNode k l r nb)) s =
     (case execute_ast K L (Some (ASTNode k l r nb)) s of
        None \<Rightarrow> None
      | Some s1 \<Rightarrow> execute_block K L nb s1)"

section \<open>The evaluator at a bounded depth\<close>

definition no_calls :: "'n rec_calls" where
  "no_calls =
     \<lparr>rec_evaluate_expression = (\<lambda>node context s. None),
      rec_execute_function_call = (\<lambda>node s. None),
      rec_execute_block = (\<lambda>node s. None),
      rec_execute_while_statement = (\<lambda>node s. None),
      rec_for_loop = (\<lambda>loop_var p loop_body i s. None)\<rparr>"

primrec bounded :: "nat \<Rightarrow> 'n libc \<Rightarrow> 'n rec_calls" where
  "bounded 0 L = no_calls"
| "bounded (Suc n) L =
     \<lparr>rec_evaluate_expression = evaluate_expression (bounded n L) L,
      rec_execute_function_call = execute_function_call (bounded n L) L,
      rec_execute_block = execute_block (bounded n L) L,
      rec_execute_while_statement = execute_while_statement (bounded n L) L,
      rec_for_loop = for_loop (bounded n L)\<rparr>"

text \<open>
  The program: \<open>parse_and_execute\<close> runs \<open>execute_ast\<close> on each top-level statement in
  turn. The parser has filled the function table before a call is executed; the initial
  state has every array zeroed.
\<close>

fun run_statements :: "nat \<Rightarrow> 'n libc \<Rightarrow> ast_node list \<Rightarrow> state \<Rightarrow> state option" where
  "run_statements n L [] s = Some s"
| "run_statements n L (st # sts) s =
     (case execute_ast (bounded n L) L (Some st) s of
        None \<Rightarrow> None
      | Some s1 \<Rightarrow> run_statements n L sts s1)"

definition initial_state :: "function_entry list \<Rightarrow> state" where
  "initial_state fs =
     \<lparr>variables = (\<lambda>i. \<lparr>name = [], array = []\<rparr>),
      variable_count = 0,
      scope_variables_stack = (\<lambda>d i. \<lparr>name = [], array = []\<rparr>),
      scope_count_stack = (\<lambda>d. 0),
      scope_depth = 0,
      function_table = fs,
      stdout = []\<rparr>"

section \<open>Running the model on examples\<close>

text \<open>
  To run a program the model needs a C library. \<open>plain_libc\<close> takes the rationals for
  the doubles. It agrees with C where the examples of this file use it: \<open>atof\<close> on an
  optional minus sign followed by decimal digits, \<open>%g\<close> on integers of magnitude below
  \<open>10^6\<close> (which C prints as plain decimals), arithmetic that is exact in a double, and
  the cast to \<open>int\<close>, which truncates toward zero. It is not C elsewhere (a fraction is
  printed as a quotient, a division by zero gives 0).
\<close>

fun read_digits :: "string \<Rightarrow> nat \<Rightarrow> nat" where
  "read_digits [] acc = acc"
| "read_digits (c # cs) acc =
     (if isdigit c then read_digits cs (10 * acc + (of_char c - 48)) else acc)"

definition plain_atof :: "string \<Rightarrow> rat" where
  "plain_atof t =
     (case t of
        [] \<Rightarrow> 0
      | c # cs \<Rightarrow> if c = CHR ''-'' then - of_nat (read_digits cs 0) else of_nat (read_digits t 0))"

definition show_int :: "int \<Rightarrow> string" where
  "show_int i = (if i < 0 then ''-'' @ show_nat (nat (- i)) else show_nat (nat i))"

definition plain_fmt_g :: "rat \<Rightarrow> string" where
  "plain_fmt_g q =
     (if of_int \<lfloor>q\<rfloor> = q then show_int \<lfloor>q\<rfloor>
      else show_int (fst (quotient_of q)) @ ''/'' @ show_int (snd (quotient_of q)))"

definition plain_to_i :: "rat \<Rightarrow> int option" where
  "plain_to_i q =
     (let t = (if q < 0 then \<lceil>q\<rceil> else \<lfloor>q\<rfloor>)
      in if INT_MIN \<le> t \<and> t \<le> 2147483647 then Some t else None)"

definition plain_libc :: "rat libc" where
  "plain_libc =
     \<lparr>atof = plain_atof, fmt_g = plain_fmt_g,
      d_add = (+), d_sub = (-), d_mul = (*), d_div = (/),
      d_lt = (<), d_le = (\<le>), d_eq = (=),
      of_i = of_int, to_i = plain_to_i\<rparr>"

text \<open>The nodes as the parser builds them; \<open>nextblock\<close> and the argument chain are set by
  \<open>then_stmt\<close> and \<open>then_arg\<close>.\<close>

definition literal :: "string \<Rightarrow> ast_node" where
  "literal t = ASTNode (AST_LITERAL t) None None None"

definition ident :: "string \<Rightarrow> ast_node" where
  "ident nm = ASTNode (AST_IDENTIFIER nm) None None None"

definition array_access :: "string \<Rightarrow> ast_node \<Rightarrow> ast_node" where
  "array_access nm index = ASTNode (AST_ARRAY_ACCESS nm) (Some index) None None"

definition binary :: "operator_type \<Rightarrow> ast_node \<Rightarrow> ast_node \<Rightarrow> ast_node" where
  "binary op l r = ASTNode (AST_BINARY_OP op) (Some l) (Some r) None"

definition assignment :: "ast_node \<Rightarrow> ast_node \<Rightarrow> ast_node" where
  "assignment target e = ASTNode AST_ASSIGNMENT (Some target) (Some e) None"

definition print_stmt :: "ast_node \<Rightarrow> ast_node" where
  "print_stmt e = ASTNode AST_PRINT (Some e) None None"

definition call :: "string \<Rightarrow> ast_node option \<Rightarrow> ast_node" where
  "call fn arguments = ASTNode (AST_FUNCTION_CALL fn arguments) None None None"

definition return_stmt :: "ast_node \<Rightarrow> ast_node" where
  "return_stmt e = ASTNode (AST_RETURN_STATEMENT (Some e)) None None None"

definition if_stmt :: "ast_node \<Rightarrow> ast_node \<Rightarrow> ast_node option \<Rightarrow> ast_node" where
  "if_stmt c t e = ASTNode (AST_IF_STATEMENT (Some c) (Some t) e) None None None"

definition for_stmt :: "string \<Rightarrow> ast_node \<Rightarrow> ast_node \<Rightarrow> ast_node" where
  "for_stmt v e b = ASTNode (AST_FOR_STATEMENT v (Some e) (Some b)) None None None"

definition then_stmt :: "ast_node \<Rightarrow> ast_node \<Rightarrow> ast_node" where
  "then_stmt a b = ASTNode (kind a) (left a) (right a) (Some b)"

definition then_arg :: "ast_node \<Rightarrow> ast_node \<Rightarrow> ast_node" where
  "then_arg a b = ASTNode (kind a) (left a) (Some b) (nextblock a)"

section \<open>Notions used in the statements\<close>

text \<open>
  What stays the same, or stays within bounds, from one state to a later one: the
  function table is the same, and a scope depth within \<open>MAX_SCOPES\<close> stays within it.
  \<open>steady_calls\<close> says so of every function of a record of recursive calls.
\<close>

definition steady :: "state \<Rightarrow> state \<Rightarrow> bool" where
  "steady s s' \<longleftrightarrow>
     function_table s' = function_table s \<and>
     (scope_depth s \<le> MAX_SCOPES \<longrightarrow> scope_depth s' \<le> MAX_SCOPES)"

definition steady_calls :: "'n rec_calls \<Rightarrow> bool" where
  "steady_calls K \<longleftrightarrow>
     (\<forall>node ctx s r s'. rec_evaluate_expression K node ctx s = Some (r, s') \<longrightarrow> steady s s') \<and>
     (\<forall>node s r s'. rec_execute_function_call K node s = Some (r, s') \<longrightarrow> steady s s') \<and>
     (\<forall>node s s'. rec_execute_block K node s = Some s' \<longrightarrow> steady s s') \<and>
     (\<forall>node s s'. rec_execute_while_statement K node s = Some s' \<longrightarrow> steady s s') \<and>
     (\<forall>v p b i s s'. rec_for_loop K v p b i s = Some s' \<longrightarrow> steady s s')"

text \<open>
  Two states with the same frame, scope stack and function table; they may differ in what
  was printed.
\<close>

definition same_frame :: "state \<Rightarrow> state \<Rightarrow> bool" where
  "same_frame s s' \<longleftrightarrow>
     variables s' = variables s \<and> variable_count s' = variable_count s \<and>
     scope_variables_stack s' = scope_variables_stack s \<and>
     scope_count_stack s' = scope_count_stack s \<and> scope_depth s' = scope_depth s \<and>
     function_table s' = function_table s"

text \<open>What a frame shows: the count and the visible slots, in order.\<close>

definition frame_view :: "state \<Rightarrow> nat \<times> (string \<times> assoc_array) list" where
  "frame_view s =
     (variable_count s,
      map (\<lambda>i. (name (variables s i), array (variables s i))) [0..<variable_count s])"

text \<open>The array that \<open>x\<close> holds, \<open>None\<close> when no visible slot has that name.\<close>

definition array_of :: "state \<Rightarrow> string \<Rightarrow> assoc_array option" where
  "array_of s x = map_option (\<lambda>j. array (variables s j)) (get_variable s x)"

text \<open>An expression without a function call in it.\<close>

fun call_free :: "ast_node option \<Rightarrow> bool" where
  "call_free None = True"
| "call_free (Some (ASTNode k l r nb)) =
     (case k of
        AST_FUNCTION_CALL fn arguments \<Rightarrow> False
      | AST_ARRAY_ACCESS nm \<Rightarrow> call_free l
      | AST_BINARY_OP op \<Rightarrow> call_free l \<and> call_free r
      | _ \<Rightarrow> True)"






text \<open>
  One execution of the loop body for each entry of a list, in the order of the list: the
  loop variable is set to the entry, the body runs, the loop variable is emptied. Each
  further turn of the loop is one level deeper in the bounded evaluator.
\<close>

fun visit_entries ::
  "nat \<Rightarrow> 'n libc \<Rightarrow> string \<Rightarrow> ast_node option \<Rightarrow> assoc_array \<Rightarrow> state \<Rightarrow> state option" where
  "visit_entries n L v b [] s = Some s"
| "visit_entries n L v b (kv # es) s =
     (case rec_execute_block (bounded n L) b (set_variable_value v (Some (fst kv)) (snd kv) s) of
        None \<Rightarrow> None
      | Some s1 \<Rightarrow> visit_entries (n - 1) L v b es (clear_variable_assoc_array v s1))"

section \<open>Example programs and states\<close>

text \<open>A frame with the one variable \<open>x\<close>, holding one entry under the key \<open>lemon\<close>; a frame
  with the one variable \<open>a\<close>, holding two entries.\<close>

definition one_entry_state :: state where
  "one_entry_state =
     (initial_state [])\<lparr>variables := (\<lambda>i. \<lparr>name = ''x'', array = [(''lemon'', ''-3'')]\<rparr>),
                        variable_count := 1\<rparr>"

definition two_entry_state :: state where
  "two_entry_state =
     (initial_state [])\<lparr>variables := (\<lambda>i. \<lparr>name = ''a'', array = [(''p'', ''u''), (''q'', ''v'')]\<rparr>),
                        variable_count := 1\<rparr>"

text \<open>\<open>x = 1\<close>, \<open>y = 2\<close>; \<open>def f(a) return a end\<close>; \<open>def noop() end\<close> (a function with no
  body, which the table can hold although the parser refuses an empty block).\<close>

definition two_variables :: "ast_node list" where
  "two_variables =
     [assignment (ident ''x'') (literal ''1''), assignment (ident ''y'') (literal ''2'')]"

definition echo_function :: function_entry where
  "echo_function =
     \<lparr>fname = ''f'', parameters = Some (ident ''a''), body = Some (return_stmt (ident ''a''))\<rparr>"







text \<open>\<open>def h() a["p"] = "u" a["q"] = "v" return a end\<close>, a function that returns an array
  of two entries, and the statement \<open>y["k"] = h()\<close>.\<close>

definition two_entry_function :: function_entry where
  "two_entry_function =
     \<lparr>fname = ''h'', parameters = None,
      body = Some (then_stmt (assignment (array_access ''a'' (literal ''p'')) (literal ''u''))
                  (then_stmt (assignment (array_access ''a'' (literal ''q'')) (literal ''v''))
                             (return_stmt (ident ''a''))))\<rparr>"

definition element_from_call :: ast_node where
  "element_from_call = assignment (array_access ''y'' (literal ''k'')) (call ''h'' None)"

text \<open>\<open>def f() if 1 return "early" end return "late" end\<close>.\<close>

definition early_return_function :: function_entry where
  "early_return_function =
     \<lparr>fname = ''f'', parameters = None,
      body = Some (then_stmt (if_stmt (literal ''1'') (return_stmt (literal ''early'')) None)
                     (return_stmt (literal ''late'')))\<rparr>"

text \<open>\<open>def g(a) return a end\<close> and \<open>def f() y = 1 g(nosuch) return x end\<close>; the state at
  the start of a call, one scope deep.\<close>

definition identity_function :: function_entry where
  "identity_function =
     \<lparr>fname = ''g'', parameters = Some (ident ''a''), body = Some (return_stmt (ident ''a''))\<rparr>"

definition failing_argument_function :: function_entry where
  "failing_argument_function =
     \<lparr>fname = ''f'', parameters = None,
      body = Some (then_stmt (assignment (ident ''y'') (literal ''1''))
                  (then_stmt (call ''g'' (Some (ident ''nosuch'')))
                             (return_stmt (ident ''x''))))\<rparr>"

definition inside_call_state :: state where
  "inside_call_state = push_scope (initial_state [identity_function])"

text \<open>\<open>a["p"] = "u"\<close>, \<open>a["q"] = "v"\<close>; \<open>if c print("yes") end\<close>.\<close>

definition two_entry_array :: "ast_node list" where
  "two_entry_array =
     [assignment (array_access ''a'' (literal ''p'')) (literal ''u''),
      assignment (array_access ''a'' (literal ''q'')) (literal ''v'')]"

definition if_prints_yes :: "ast_node \<Rightarrow> ast_node" where
  "if_prints_yes c = if_stmt c (print_stmt (literal ''yes'')) None"

text \<open>\<open>for i in a print(i) end\<close>, and \<open>for i in a a["r"] = "w" print(i) end\<close>.\<close>

definition print_each :: ast_node where
  "print_each = for_stmt ''i'' (ident ''a'') (print_stmt (ident ''i''))"

definition grow_and_print_each :: ast_node where
  "grow_and_print_each =
     for_stmt ''i'' (ident ''a'')
       (then_stmt (assignment (array_access ''a'' (literal ''r'')) (literal ''w''))
                  (print_stmt (ident ''i'')))"




text \<open>The argument lists of \<open>mod((0 - 3) / 2, 2)\<close> and of \<open>mod(7, 2)\<close>: the first argument,
  whose \<open>right\<close> link leads to the second. In the first list the link is that of the
  division node, where the parser has put the second argument in place of the divisor.\<close>

definition minus_three_halves_and_two :: ast_node where
  "minus_three_halves_and_two =
     then_arg (binary OP_DIVIDE (binary OP_SUBTRACT (literal ''0'') (literal ''3'')) (literal ''2''))
              (literal ''2'')"

definition seven_and_two :: ast_node where
  "seven_and_two = then_arg (literal ''7'') (literal ''2'')"

section \<open>What every execution preserves\<close>

text \<open>
  No function of the evaluator writes to the function table, and \<open>push_scope\<close> is the only
  one to raise the scope depth, which it refuses to do at \<open>MAX_SCOPES\<close>. The lemmas below
  carry this through every function, for any record of recursive calls of which it
  holds, and then through \<open>bounded\<close> by induction on the depth.
\<close>

lemma steady_refl [simp]: "steady s s"
  by (simp add: steady_def)

lemma steady_trans: "steady s s1 \<Longrightarrow> steady s1 s2 \<Longrightarrow> steady s s2"
  by (simp add: steady_def)

lemma steady_printf [simp]: "steady s (printf m s') = steady s s'"
  by (simp add: steady_def printf_def)

lemma steady_set_variable_value [simp]: "steady s (set_variable_value x k v s') = steady s s'"
  by (simp add: steady_def set_variable_value_def printf_def Let_def split: option.splits)

lemma steady_set_variable_assoc_array [simp]:
  "steady s (set_variable_assoc_array x p s') = steady s s'"
  by (simp add: steady_def set_variable_assoc_array_def printf_def Let_def split: option.splits)

lemma steady_clear [simp]: "steady s (clear_variable_assoc_array x s') = steady s s'"
  by (simp add: steady_def clear_variable_assoc_array_def split: option.splits)

lemma steady_print_assoc_array [simp]: "steady s (print_assoc_array a s') = steady s s'"
  by (simp add: print_assoc_array_def)

lemma steady_push: "steady s s' \<Longrightarrow> steady s (push_scope s')"
  by (auto simp: steady_def push_scope_def printf_def)

lemma steady_pop: "steady s s' \<Longrightarrow> steady s (pop_scope s')"
  by (auto simp: steady_def pop_scope_def printf_def)

lemma steady_evalD:
  "steady_calls K \<Longrightarrow> rec_evaluate_expression K node ctx s = Some (r, s') \<Longrightarrow> steady s s'"
  unfolding steady_calls_def by meson

lemma steady_callD:
  "steady_calls K \<Longrightarrow> rec_execute_function_call K node s = Some (r, s') \<Longrightarrow> steady s s'"
  unfolding steady_calls_def by meson

lemma steady_blockD:
  "steady_calls K \<Longrightarrow> rec_execute_block K node s = Some s' \<Longrightarrow> steady s s'"
  unfolding steady_calls_def by meson

lemma steady_whileD:
  "steady_calls K \<Longrightarrow> rec_execute_while_statement K node s = Some s' \<Longrightarrow> steady s s'"
  unfolding steady_calls_def by meson

lemma steady_forD:
  "steady_calls K \<Longrightarrow> rec_for_loop K v p b i s = Some s' \<Longrightarrow> steady s s'"
  unfolding steady_calls_def by meson

lemma evaluate_expression_steady:
  assumes K: "steady_calls K" and ev: "evaluate_expression K L node ctx s = Some (r, s')"
  shows "steady s s'"
proof (cases node)
  case None
  with ev show ?thesis by (simp add: evaluate_expression_def)
next
  case (Some nd)
  show ?thesis
  proof (cases "kind nd")
    case (AST_ARRAY_ACCESS nm)
    show ?thesis
    proof (cases "rec_evaluate_expression K (left nd) EVAL_ARITHMETIC s")
      case None
      with ev Some AST_ARRAY_ACCESS show ?thesis by (simp add: evaluate_expression_def)
    next
      case (Some a)
      obtain kr s1 where a: "a = (kr, s1)" by (cases a)
      from steady_evalD [OF K] Some a have "steady s s1" by simp
      with ev \<open>node = Some nd\<close> AST_ARRAY_ACCESS Some a show ?thesis
        by (auto simp: evaluate_expression_def split: option.splits eval_result.splits)
    qed
  next
    case (AST_BINARY_OP op)
    let ?c = "if is_arithmetic_operator op then EVAL_ARITHMETIC else ctx"
    show ?thesis
    proof (cases "rec_evaluate_expression K (left nd) ?c s")
      case None
      with ev Some AST_BINARY_OP show ?thesis by (simp add: evaluate_expression_def)
    next
      case (Some a)
      obtain lr s1 where a: "a = (lr, s1)" by (cases a)
      from steady_evalD [OF K] Some a have s1: "steady s s1" by simp
      show ?thesis
      proof (cases lr)
        case None
        with ev \<open>node = Some nd\<close> AST_BINARY_OP Some a s1 show ?thesis
          by (simp add: evaluate_expression_def)
      next
        case (Some lv)
        show ?thesis
        proof (cases "rec_evaluate_expression K (right nd) ?c s1")
          case None
          with ev \<open>node = Some nd\<close> AST_BINARY_OP \<open>rec_evaluate_expression K (left nd) ?c s = Some a\<close>
            a Some
          show ?thesis by (simp add: evaluate_expression_def)
        next
          case (Some b)
          obtain rr s2 where b: "b = (rr, s2)" by (cases b)
          from steady_evalD [OF K] Some b have "steady s1 s2" by simp
          with s1 have "steady s s2" by (rule steady_trans)
          with ev \<open>node = Some nd\<close> AST_BINARY_OP
            \<open>rec_evaluate_expression K (left nd) ?c s = Some a\<close> a \<open>lr = Some lv\<close> Some b
          show ?thesis
            by (auto simp: evaluate_expression_def split: option.splits eval_result.splits)
        qed
      qed
    qed
  next
    case (AST_FUNCTION_CALL fn arguments)
    with ev Some show ?thesis
      by (auto simp: evaluate_expression_def split: option.splits dest: steady_callD [OF K])
  qed (use ev Some in \<open>auto simp: evaluate_expression_def split: option.splits eval_context.splits if_splits\<close>)
qed

lemma evaluate_arguments_steady:
  "steady_calls K \<Longrightarrow> evaluate_arguments K param arg args s = Some (r, s') \<Longrightarrow> steady s s'"
proof (induction K param arg args s rule: evaluate_arguments.induct)
  case (3 K pk pl pr pn ak al ar an args s)
  show ?case
  proof (cases "rec_evaluate_expression K (Some (ASTNode ak al ar an)) EVAL_ARITHMETIC s")
    case None
    with "3.prems" show ?thesis by simp
  next
    case (Some a)
    obtain v s1 where a: "a = (v, s1)" by (cases a)
    from steady_evalD [OF "3.prems"(1)] Some a have s1: "steady s s1" by simp
    show ?thesis
    proof (cases v)
      case None
      with "3.prems" Some a s1 show ?thesis by auto
    next
      case (Some arg_val)
      with "3.prems" \<open>rec_evaluate_expression K (Some (ASTNode ak al ar an)) EVAL_ARITHMETIC s = Some a\<close> a
      have "\<not> MAX_FUNC_PARAMS \<le> length args"
        and "evaluate_arguments K pr ar (args @ [arg_val]) s1 = Some (r, s')"
        by (auto split: if_splits)
      from "3.IH" [OF \<open>rec_evaluate_expression K (Some (ASTNode ak al ar an)) EVAL_ARITHMETIC s = Some a\<close>
          a [symmetric] Some this(1) "3.prems"(1) this(2)] s1
      show ?thesis by (rule steady_trans [rotated])
    qed
  qed
qed simp_all

lemma kvstdlib_len_steady:
  assumes K: "steady_calls K" and ev: "kvstdlib_len K L arg s = Some (r, s')"
  shows "steady s s'"
  using ev
  by (auto simp: kvstdlib_len_def split: option.splits if_splits dest!: steady_evalD [OF K])

lemma kvstdlib_key_steady:
  assumes K: "steady_calls K" and ev: "kvstdlib_key K L arg s = Some (r, s')"
  shows "steady s s'"
  using ev
  by (auto simp: kvstdlib_key_def split: option.splits if_splits node_kind.splits list.splits
        eval_result.splits dest!: steady_evalD [OF K])

lemma kvstdlib_mod_steady:
  assumes K: "steady_calls K" and ev: "kvstdlib_mod K L arg s = Some (r, s')"
  shows "steady s s'"
  using ev
  by (auto simp: kvstdlib_mod_def split: option.splits if_splits eval_result.splits
        dest!: steady_evalD [OF K]) (simp_all add: steady_def)

lemma execute_assignment_steady:
  assumes K: "steady_calls K" and ev: "execute_assignment K L node s = Some s'"
  shows "steady s s'"
  using ev
  by (auto simp: execute_assignment_def split: option.splits node_kind.splits eval_result.splits
        dest!: steady_evalD [OF K]) (simp_all add: steady_def)

lemma evaluate_and_print_steady:
  assumes K: "steady_calls K" and ev: "evaluate_and_print K L node s = Some s'"
  shows "steady s s'"
  using ev
  by (auto simp: evaluate_and_print_def split: option.splits eval_result.splits
        dest!: steady_evalD [OF K])

lemma execute_ast_with_return_steady:
  assumes K: "steady_calls K" and ev: "execute_ast_with_return K L node s = Some (r, s')"
  shows "steady s s'"
  using ev
  by (auto simp: execute_ast_with_return_def
        split: option.splits node_kind.splits eval_result.splits
        dest!: steady_evalD [OF K] steady_callD [OF K] evaluate_and_print_steady [OF K]
          execute_assignment_steady [OF K])

lemma execute_block_with_return_steady:
  "steady_calls K \<Longrightarrow> execute_block_with_return K L node s = Some (r, s') \<Longrightarrow> steady s s'"
proof (induction K L node s rule: execute_block_with_return.induct)
  case (1 K L s)
  then show ?case by simp
next
  case (2 K' L k l rt nb s)
  note K' = "2.prems"(1)
  show ?case
  proof (cases "execute_ast_with_return K' L (Some (ASTNode k l rt nb)) s")
    case None
    with "2.prems" show ?thesis by simp
  next
    case (Some a)
    obtain st s1 where a: "a = (st, s1)" by (cases a)
    from execute_ast_with_return_steady [OF K'] Some a have s1: "steady s s1" by simp
    show ?thesis
    proof (cases "has_return st")
      case True
      with "2.prems" Some a s1 show ?thesis by simp
    next
      case False
      with "2.prems"(2) Some a have "execute_block_with_return K' L nb s1 = Some (r, s')" by simp
      from "2.IH" [OF Some a [symmetric] False K' this] s1 show ?thesis
        by (rule steady_trans [rotated])
    qed
  qed
qed

lemma set_variable_from_eval_result_steady [simp]:
  "steady s (set_variable_from_eval_result L nm v s') = steady s s'"
  by (simp add: set_variable_from_eval_result_def split: eval_result.splits)

lemma bind_arguments_steady:
  "bind_arguments L param args s = Some (p, s') \<Longrightarrow> steady s0 s \<Longrightarrow> steady s0 s'"
  by (induction L param args s rule: bind_arguments.induct) (auto split: option.splits)

lemma bind_missing_steady:
  "bind_missing param s = Some s' \<Longrightarrow> steady s0 s \<Longrightarrow> steady s0 s'"
  by (induction param s rule: bind_missing.induct) (auto split: option.splits)

lemma execute_function_call_steady:
  assumes K: "steady_calls K" and ev: "execute_function_call K L call_node s = Some (r, s')"
  shows "steady s s'"
proof (cases "kind call_node")
  case (AST_FUNCTION_CALL fn arguments)
  show ?thesis
  proof (cases "fn = ''len'' \<or> fn = ''key'' \<or> fn = ''mod'' \<or> fn = ''bar''")
    case True
    with ev AST_FUNCTION_CALL show ?thesis
      by (auto simp: execute_function_call_def
            dest: kvstdlib_len_steady [OF K] kvstdlib_key_steady [OF K] kvstdlib_mod_steady [OF K])
  next
    case False
    show ?thesis
    proof (cases "find_function s fn")
      case None
      with ev AST_FUNCTION_CALL False show ?thesis by (auto simp: execute_function_call_def)
    next
      case (Some idx)
      show ?thesis
      proof (cases "evaluate_arguments K (parameters (function_table s ! idx)) arguments [] s")
        case None
        with ev AST_FUNCTION_CALL False Some show ?thesis
          by (auto simp: execute_function_call_def)
      next
        case (Some a)
        obtain av s1 where a: "a = (av, s1)" by (cases a)
        from evaluate_arguments_steady [OF K] Some a have s1: "steady s s1" by simp
        show ?thesis
        proof (cases av)
          case None
          with ev AST_FUNCTION_CALL False \<open>find_function s fn = Some idx\<close> Some a steady_pop [OF s1]
          show ?thesis by (auto simp: execute_function_call_def)
        next
          case (Some args)
          from ev AST_FUNCTION_CALL False \<open>find_function s fn = Some idx\<close>
            \<open>evaluate_arguments K (parameters (function_table s ! idx)) arguments [] s = Some a\<close>
            a Some
          obtain param s2 s3 body_ret s4 where
            b: "bind_arguments L (parameters (function_table (push_scope s1) ! idx)) args
                  (push_scope s1) = Some (param, s2)"
            and m: "bind_missing param s2 = Some s3"
            and x: "execute_block_with_return K L (body (function_table s3 ! idx)) s3
                      = Some (body_ret, s4)"
            and s': "s' = pop_scope s4"
            by (auto simp: execute_function_call_def split: option.splits)
          from bind_arguments_steady [OF b steady_push [OF s1]] have "steady s s2" .
          from bind_missing_steady [OF m this] have "steady s s3" .
          with execute_block_with_return_steady [OF K x] have "steady s s4"
            by (blast intro: steady_trans)
          with s' show ?thesis by (simp add: steady_pop)
        qed
      qed
    qed
  qed
qed (use ev in \<open>simp_all add: execute_function_call_def\<close>)

lemma execute_if_statement_steady:
  assumes K: "steady_calls K" and ev: "execute_if_statement K L node s = Some s'"
  shows "steady s s'"
  using ev
  by (auto simp: execute_if_statement_def split: option.splits node_kind.splits eval_result.splits
        if_splits dest!: steady_evalD [OF K] steady_blockD [OF K]) (simp_all add: steady_def)

lemma for_loop_steady:
  assumes K: "steady_calls K" and ev: "for_loop K v p b i s = Some s'"
  shows "steady s s'"
proof (cases "i < length (deref s p)")
  case False
  with ev show ?thesis by (simp add: for_loop_def)
next
  case True
  let ?s0 = "set_variable_value v (Some (fst (deref s p ! i))) (snd (deref s p ! i)) s"
  from ev True obtain s1 where b: "rec_execute_block K b ?s0 = Some s1"
    and f: "rec_for_loop K v p b (Suc i) (clear_variable_assoc_array v s1) = Some s'"
    by (auto simp: for_loop_def split: option.splits)
  have "steady s ?s0" by simp
  with steady_blockD [OF K b] have "steady s s1" by (blast intro: steady_trans)
  then have "steady s (clear_variable_assoc_array v s1)" by simp
  with steady_forD [OF K f] show ?thesis by (blast intro: steady_trans)
qed

lemma execute_for_statement_steady:
  assumes K: "steady_calls K" and ev: "execute_for_statement K L node s = Some s'"
  shows "steady s s'"
  using ev
  by (auto simp: execute_for_statement_def split: option.splits node_kind.splits eval_result.splits
        dest!: steady_evalD [OF K] for_loop_steady [OF K]) (simp_all add: steady_def)

lemma execute_while_statement_steady:
  assumes K: "steady_calls K" and ev: "execute_while_statement K L node s = Some s'"
  shows "steady s s'"
  using ev
  by (auto simp: execute_while_statement_def split: option.splits node_kind.splits if_splits
        dest!: steady_evalD [OF K] steady_blockD [OF K] steady_whileD [OF K])
     (simp_all add: steady_def)

lemma execute_ast_steady:
  assumes K: "steady_calls K" and ev: "execute_ast K L node s = Some s'"
  shows "steady s s'"
  using ev
  by (auto simp: execute_ast_def split: option.splits node_kind.splits
        dest!: evaluate_and_print_steady [OF K] execute_assignment_steady [OF K]
          execute_if_statement_steady [OF K] steady_blockD [OF K]
          execute_for_statement_steady [OF K] execute_while_statement_steady [OF K]
          steady_callD [OF K])

lemma execute_block_steady:
  "steady_calls K \<Longrightarrow> execute_block K L node s = Some s' \<Longrightarrow> steady s s'"
proof (induction K L node s rule: execute_block.induct)
  case (1 K L s)
  then show ?case by simp
next
  case (2 K' L k l rt nb s)
  note K' = "2.prems"(1)
  show ?case
  proof (cases "execute_ast K' L (Some (ASTNode k l rt nb)) s")
    case None
    with "2.prems" show ?thesis by simp
  next
    case (Some s1)
    with "2.prems"(2) have "execute_block K' L nb s1 = Some s'" by simp
    from "2.IH" [OF Some K' this] execute_ast_steady [OF K' Some] show ?thesis
      by (rule steady_trans [rotated])
  qed
qed

lemma bounded_steady: "steady_calls (bounded n L)"
proof (induction n)
  case 0
  show ?case by (simp add: steady_calls_def no_calls_def)
next
  case (Suc n)
  show ?case
    unfolding steady_calls_def
    by (auto dest: evaluate_expression_steady [OF Suc] execute_function_call_steady [OF Suc]
          execute_block_steady [OF Suc] execute_while_statement_steady [OF Suc]
          for_loop_steady [OF Suc])
qed

lemma run_statements_steady:
  "run_statements n L sts s = Some s' \<Longrightarrow> steady s s'"
proof (induction sts arbitrary: s)
  case Nil
  then show ?case by simp
next
  case (Cons st sts)
  then obtain s1 where a: "execute_ast (bounded n L) L (Some st) s = Some s1"
    and r: "run_statements n L sts s1 = Some s'"
    by (auto split: option.splits)
  from execute_ast_steady [OF bounded_steady a] Cons.IH [OF r] show ?case
    by (rule steady_trans)
qed

text \<open>
  For a program run from the initial state: the scope depth never exceeds \<open>MAX_SCOPES\<close>,
  and the function table is the one the parser left.
\<close>

lemma scope_depth_never_exceeds_maximum:
  "run_statements n L sts (initial_state fs) = Some s'
     \<Longrightarrow> scope_depth s' \<le> MAX_SCOPES \<and> function_table s' = fs"
  by (drule run_statements_steady) (simp add: steady_def initial_state_def)

section \<open>Identifiers in arithmetic context\<close>

text \<open>
  Claim C1. Evaluating a bare identifier in arithmetic context, for a variable found in
  slot \<open>j\<close>: when the array of the variable has exactly one entry, whatever its key, the
  result is the value of that entry, a number (its \<open>atof\<close>) when the text begins with a
  digit or with \<open>-\<close> and a digit, the string itself otherwise; for every other size the
  result is the array itself, by reference to the slot. The state is unchanged, and the
  evaluation returns at every depth bound.
\<close>

theorem identifier_collapses_singleton:
  assumes "get_variable s nm = Some j"
  shows "evaluate_expression (bounded n L) L (Some (ASTNode (AST_IDENTIFIER nm) l r nb))
           EVAL_ARITHMETIC s =
         Some (Some (case array (variables s j) of
                       [(k, v)] \<Rightarrow>
                         if is_number_text v then RESULT_NUMBER (atof L v) else RESULT_STRING v
                     | _ \<Rightarrow> RESULT_ASSOC_ARRAY (Var_slot j)), s)"
  using assms
  by (simp add: evaluate_expression_def text_result_def split: list.split)

theorem identifier_collapses_singleton_witness:
  "get_variable one_entry_state ''x'' = Some 0 \<and>
   evaluate_expression (bounded 0 plain_libc) plain_libc (Some (ident ''x''))
      EVAL_ARITHMETIC one_entry_state = Some (Some (RESULT_NUMBER (- 3)), one_entry_state)"
proof -
  have g: "get_variable one_entry_state ''x'' = Some 0"
    by (simp add: get_variable_def one_entry_state_def initial_state_def)
  show ?thesis
    using g identifier_collapses_singleton [OF g, of 0 plain_libc None None None]
    by (simp add: ident_def one_entry_state_def isdigit_def plain_libc_def plain_atof_def)
qed

section \<open>Assignment and read-back\<close>

lemma get_after_set_assoc [simp]:
  "get_assoc_array_value (set_assoc_array_value a k v) k = Some v"
  by (induction a) auto


lemma find_slot_Some:
  "find_slot vars nm i k = Some j \<Longrightarrow> name (vars j) = nm \<and> i \<le> j \<and> j < i + k"
proof (induction k arbitrary: i)
  case 0
  then show ?case by simp
next
  case (Suc k)
  show ?case
  proof (cases "name (vars i) = nm")
    case True
    with Suc.prems show ?thesis by simp
  next
    case False
    with Suc.prems have "find_slot vars nm (Suc i) k = Some j" by simp
    from Suc.IH [OF this] show ?thesis by simp
  qed
qed









section \<open>Assigning an array to an element\<close>

lemma same_frame_refl [simp]: "same_frame s s"
  by (simp add: same_frame_def)

lemma same_frame_printf [simp]: "same_frame s (printf m s') = same_frame s s'"
  by (simp add: same_frame_def printf_def)

lemma same_frame_trans: "same_frame s s1 \<Longrightarrow> same_frame s1 s2 \<Longrightarrow> same_frame s s2"
  by (simp add: same_frame_def)

lemma call_free_keeps_frame:
  "call_free e \<Longrightarrow> rec_evaluate_expression (bounded n L) e ctx s = Some (r, s')
     \<Longrightarrow> same_frame s s'"
proof (induction n arbitrary: e ctx s r s')
  case 0
  then show ?case by (simp add: no_calls_def)
next
  case (Suc n)
  show ?case
  proof (cases e)
    case None
    with Suc.prems show ?thesis by (simp add: evaluate_expression_def)
  next
    case (Some node)
    obtain k l rt nb where node: "node = ASTNode k l rt nb" by (cases node)
    from Suc.prems(2) have ev: "evaluate_expression (bounded n L) L (Some (ASTNode k l rt nb)) ctx s = Some (r, s')"
      by (simp add: Some node)
    from Suc.prems(1) have cf: "call_free (Some (ASTNode k l rt nb))" by (simp add: Some node)
    show ?thesis
    proof (cases k)
      case (AST_ARRAY_ACCESS nm)
      with cf have cl: "call_free l" by simp
      from ev AST_ARRAY_ACCESS show ?thesis
        by (auto simp: evaluate_expression_def split: option.splits eval_result.splits
              dest!: Suc.IH [OF cl])
    next
      case (AST_BINARY_OP op)
      with cf have cl: "call_free l" and cr: "call_free rt" by simp_all
      from ev AST_BINARY_OP show ?thesis
        by (auto simp: evaluate_expression_def split: option.splits eval_result.splits
              dest!: Suc.IH [OF cl] Suc.IH [OF cr]) (simp_all add: same_frame_def)
    next
      case (AST_FUNCTION_CALL fn arguments)
      with cf show ?thesis by simp
    qed (use ev in \<open>auto simp: evaluate_expression_def split: option.splits eval_context.splits if_splits\<close>)
  qed
qed

text \<open>
  The step of \<open>x[k] = e\<close> that follows the evaluation of \<open>e\<close> (to an array) and of \<open>k\<close>:
  whatever the index evaluates to, the assignment returns, and it adds one diagnostic
  line to the state left by the two evaluations. \<open>set_variable_value\<close> is not reached.
  When \<open>e\<close> and \<open>k\<close> contain no function call, the frame is the one from before the
  assignment.
\<close>

lemma element_assignment_of_array_adds_one_line:
  assumes "rec_evaluate_expression (bounded n L) e EVAL_ARITHMETIC s
             = Some (Some (RESULT_ASSOC_ARRAY p), s1)"
      and "rec_evaluate_expression (bounded n L) k EVAL_PRINT s1 = Some (kr, s2)"
  shows "\<exists>s'. execute_assignment (bounded n L) L
                 (Some (ASTNode AST_ASSIGNMENT (Some (ASTNode (AST_ARRAY_ACCESS x) k tr tn)) e nb)) s
               = Some s'
             \<and> same_frame s2 s' \<and> get_variable s' x = get_variable s2 x
             \<and> stdout s' = stdout s2 @
                  [case kr of
                     None \<Rightarrow> ''Error: Failed to evaluate array index''
                   | Some (RESULT_ASSOC_ARRAY q) \<Rightarrow>
                       ''Assignment Error: Array index must be a string or number''
                   | Some _ \<Rightarrow> ''Error: Cannot assign an associative array to an array element'']
             \<and> (call_free e \<and> call_free k \<longrightarrow>
                  same_frame s s' \<and> get_variable s' x = get_variable s x)"
proof -
  let ?msg = "case kr of
                None \<Rightarrow> ''Error: Failed to evaluate array index''
              | Some (RESULT_ASSOC_ARRAY q) \<Rightarrow>
                  ''Assignment Error: Array index must be a string or number''
              | Some _ \<Rightarrow> ''Error: Cannot assign an associative array to an array element''"
  have ex: "execute_assignment (bounded n L) L
      (Some (ASTNode AST_ASSIGNMENT (Some (ASTNode (AST_ARRAY_ACCESS x) k tr tn)) e nb)) s
      = Some (printf ?msg s2)"
    using assms by (cases kr) (auto simp: execute_assignment_def split: eval_result.splits)
  have fr: "same_frame s2 (printf ?msg s2)" by simp
  have gv: "get_variable (printf ?msg s2) x = get_variable s2 x"
    by (simp add: get_variable_def printf_def)
  have out: "stdout (printf ?msg s2) = stdout s2 @ [?msg]" by (simp add: printf_def)
  have cf: "same_frame s (printf ?msg s2) \<and> get_variable (printf ?msg s2) x = get_variable s x"
    if "call_free e" "call_free k"
  proof -
    from call_free_keeps_frame [OF that(1) assms(1)] call_free_keeps_frame [OF that(2) assms(2)]
    have "same_frame s s2" by (rule same_frame_trans)
    then show ?thesis by (simp add: same_frame_def get_variable_def printf_def)
  qed
  from ex fr gv out cf show ?thesis by blast
qed

text \<open>
  Claim C10 asks that \<open>x[k] = e\<close> with \<open>e\<close> evaluating to an array only reports an error
  and leaves the array of \<open>x\<close> entirely unchanged. On the program \<open>x = 1\<close>, \<open>y = 2\<close>,
  \<open>y["k"] = h()\<close> with \<open>def h() a["p"] = "u" a["q"] = "v" return a end\<close> it does not: before
  the assignment the frame shows \<open>x\<close> and \<open>y\<close>, and \<open>y\<close> holds \<open>2\<close> under the default key;
  the right-hand side \<open>h()\<close> evaluates to an array of two entries; after the assignment,
  which prints the one line \<open>Error: Cannot assign an associative array to an array element\<close>,
  \<open>variable_count\<close> is 1, the frame shows \<open>x\<close> alone, and \<open>y\<close> has no array any more. The
  count is the one left by the call, whose \<open>pop_scope\<close> does not restore it.
\<close>

theorem element_assignment_from_call_loses_target:
  "map_option (\<lambda>s. (frame_view s, array_of s ''y''))
     (run_statements 4 plain_libc two_variables (initial_state [two_entry_function]))
     = Some ((2, [(''x'', [('''', ''1'')]), (''y'', [('''', ''2'')])]), Some [('''', ''2'')]) \<and>
   map_option fst
     (evaluate_expression (bounded 3 plain_libc) plain_libc (Some (call ''h'' None)) EVAL_ARITHMETIC
        (initial_state [two_entry_function]))
     = Some (Some (RESULT_ASSOC_ARRAY (Own_array [(''p'', ''u''), (''q'', ''v'')]))) \<and>
   map_option (\<lambda>s. (frame_view s, array_of s ''y'', stdout s))
     (run_statements 4 plain_libc (two_variables @ [element_from_call])
        (initial_state [two_entry_function]))
     = Some ((1, [(''x'', [('''', ''1'')])]), None,
             [''Error: Cannot assign an associative array to an array element''])"
  by code_simp

section \<open>Conditions\<close>

text \<open>
  Claim C7, as amended. The condition of an \<open>if\<close> statement is evaluated in arithmetic
  context. When it is a number, the then-branch runs exactly when the number differs from
  0; when it is a string, exactly when the string is not empty; otherwise the else-branch
  runs if there is one, and without one the statement does nothing more. When the
  condition is an array, of whatever size, the statement reports an invalid condition
  type and runs neither branch.
\<close>

theorem if_statement_truth:
  assumes "rec_evaluate_expression (bounded n L) c EVAL_ARITHMETIC s = Some (Some v, s1)"
  shows "execute_if_statement (bounded n L) L (Some (ASTNode (AST_IF_STATEMENT c t e) l r nb)) s =
         (case v of
            RESULT_NUMBER x \<Rightarrow>
              if \<not> d_eq L x (of_i L 0) then rec_execute_block (bounded n L) t s1
              else if e = None then Some s1 else rec_execute_block (bounded n L) e s1
          | RESULT_STRING txt \<Rightarrow>
              if txt \<noteq> [] then rec_execute_block (bounded n L) t s1
              else if e = None then Some s1 else rec_execute_block (bounded n L) e s1
          | RESULT_ASSOC_ARRAY p \<Rightarrow>
              Some (printf ''Error: Invalid condition type in if statement'' s1))"
  using assms
  by (auto simp add: execute_if_statement_def split: eval_result.split)

theorem if_statement_truth_witness:
  "rec_evaluate_expression (bounded 2 plain_libc) (Some (literal ''x'')) EVAL_ARITHMETIC
     (initial_state []) = Some (Some (RESULT_STRING ''x''), initial_state []) \<and>
   execute_if_statement (bounded 2 plain_libc) plain_libc (Some (if_prints_yes (literal ''x'')))
     (initial_state []) = Some (printf ''yes'' (initial_state []))"
proof -
  have h: "rec_evaluate_expression (bounded 2 plain_libc) (Some (literal ''x'')) EVAL_ARITHMETIC
     (initial_state []) = Some (Some (RESULT_STRING ''x''), initial_state [])"
    by (simp add: eval_nat_numeral evaluate_expression_def literal_def text_result_def isdigit_def)
  have b: "rec_execute_block (bounded 2 plain_libc) (Some (print_stmt (literal ''yes''))) (initial_state [])
           = Some (printf ''yes'' (initial_state []))"
    by (simp add: eval_nat_numeral print_stmt_def execute_ast_def evaluate_and_print_def
          evaluate_expression_def literal_def text_result_def isdigit_def)
  show ?thesis
    using h b if_statement_truth [OF h, where t = "Some (print_stmt (literal ''yes''))"
            and e = None and l = None and r = None and nb = None]
    by (simp add: if_prints_yes_def if_stmt_def)
qed

text \<open>
  Claim C7 as stated fails for an array: with \<open>a\<close> holding two entries, \<open>if a print("yes")
  end\<close> prints the error and not \<open>yes\<close>.
\<close>

theorem if_rejects_array_condition:
  "map_option (\<lambda>s. (length (array (variables s 0)), stdout s))
     (run_statements 3 plain_libc (two_entry_array @ [if_prints_yes (ident ''a'')]) (initial_state []))
   = Some (2, [''Error: Invalid condition type in if statement''])"
  by code_simp

section \<open>For loops\<close>

lemma for_loop_visits:
  assumes "\<forall>m\<le>length es - i. \<forall>sm.
             visit_entries n L v b (take m (drop i es)) s = Some sm \<longrightarrow> deref sm p = es"
      and "i \<le> length es"
  shows "for_loop (bounded n L) v p b i s = visit_entries n L v b (drop i es) s"
  using assms
proof (induction "length es - i" arbitrary: i n s)
  case 0
  from "0.prems"(1) have "deref s p = es" by (auto dest: spec [of _ 0])
  with 0 show ?case by (simp add: for_loop_def)
next
  case (Suc d)
  from Suc.prems(1) have here: "deref s p = es" by (auto dest: spec [of _ 0])
  from Suc.hyps(2) have lt: "i < length es" by simp
  then have dr: "drop i es = es ! i # drop (Suc i) es" by (simp add: Cons_nth_drop_Suc)
  let ?s0 = "set_variable_value v (Some (fst (es ! i))) (snd (es ! i)) s"
  show ?case
  proof (cases "rec_execute_block (bounded n L) b ?s0")
    case None
    with here lt dr show ?thesis by (simp add: for_loop_def)
  next
    case (Some s1)
    then obtain n' where n: "n = Suc n'" by (cases n) (simp_all add: no_calls_def)
    have stable: "\<forall>m\<le>length es - Suc i. \<forall>sm.
        visit_entries n' L v b (take m (drop (Suc i) es)) (clear_variable_assoc_array v s1) = Some sm
        \<longrightarrow> deref sm p = es"
    proof (intro allI impI)
      fix m sm
      assume m: "m \<le> length es - Suc i"
        and vis: "visit_entries n' L v b (take m (drop (Suc i) es)) (clear_variable_assoc_array v s1)
                  = Some sm"
      from m lt have "Suc m \<le> length es - i" by simp
      moreover have "visit_entries n L v b (take (Suc m) (drop i es)) s = Some sm"
        using vis Some by (simp add: dr n)
      ultimately show "deref sm p = es" using Suc.prems(1) by blast
    qed
    from Suc.hyps(2) have d: "d = length es - Suc i" by simp
    from lt have le: "Suc i \<le> length es" by simp
    have "for_loop (bounded n' L) v p b (Suc i) (clear_variable_assoc_array v s1)
          = visit_entries n' L v b (drop (Suc i) es) (clear_variable_assoc_array v s1)"
      by (rule Suc.hyps(1) [OF d stable le])
    moreover have "for_loop (bounded n L) v p b i s
          = rec_for_loop (bounded n L) v p b (Suc i) (clear_variable_assoc_array v s1)"
      using here lt Some by (simp add: for_loop_def)
    moreover have "visit_entries n L v b (drop i es) s
          = visit_entries n' L v b (drop (Suc i) es) (clear_variable_assoc_array v s1)"
      using Some by (simp add: dr n)
    ultimately show ?thesis by (simp add: n)
  qed
qed

text \<open>
  Claim C6, as amended. Let the loop expression of \<open>for v in e\<close> evaluate, in print
  context, to an array, and let \<open>es\<close> be its entries, the array showing these same
  entries at the start and after each turn of the loop. Then the statement is
  \<open>visit_entries\<close> on \<open>es\<close>: the body is executed once for each entry, in insertion
  order, and never otherwise.
\<close>

theorem for_statement_visits_entries:
  assumes "rec_evaluate_expression (bounded n L) e EVAL_PRINT s
             = Some (Some (RESULT_ASSOC_ARRAY p), s1)"
      and "\<forall>m\<le>length es. \<forall>sm.
             visit_entries n L v b (take m es) s1 = Some sm \<longrightarrow> deref sm p = es"
  shows "execute_for_statement (bounded n L) L (Some (ASTNode (AST_FOR_STATEMENT v e b) l r nb)) s
           = visit_entries n L v b es s1"
  using assms(1) for_loop_visits [of es 0 n L v b s1 p] assms(2)
  by (simp add: execute_for_statement_def)

theorem for_statement_visits_entries_witness:
  "rec_evaluate_expression (bounded 3 plain_libc) (Some (ident ''a'')) EVAL_PRINT two_entry_state
     = Some (Some (RESULT_ASSOC_ARRAY (Var_slot 0)), two_entry_state) \<and>
   map_option (\<lambda>sm. deref sm (Var_slot 0))
     (visit_entries 3 plain_libc ''i'' (Some (print_stmt (ident ''i'')))
        (take 0 [(''p'', ''u''), (''q'', ''v'')]) two_entry_state)
     = Some [(''p'', ''u''), (''q'', ''v'')] \<and>
   map_option (\<lambda>sm. deref sm (Var_slot 0))
     (visit_entries 3 plain_libc ''i'' (Some (print_stmt (ident ''i'')))
        (take 1 [(''p'', ''u''), (''q'', ''v'')]) two_entry_state)
     = Some [(''p'', ''u''), (''q'', ''v'')] \<and>
   map_option (\<lambda>sm. deref sm (Var_slot 0))
     (visit_entries 3 plain_libc ''i'' (Some (print_stmt (ident ''i'')))
        (take 2 [(''p'', ''u''), (''q'', ''v'')]) two_entry_state)
     = Some [(''p'', ''u''), (''q'', ''v'')] \<and>
   execute_for_statement (bounded 3 plain_libc) plain_libc (Some print_each) two_entry_state
     = visit_entries 3 plain_libc ''i'' (Some (print_stmt (ident ''i'')))
         [(''p'', ''u''), (''q'', ''v'')] two_entry_state \<and>
   map_option stdout
     (execute_for_statement (bounded 3 plain_libc) plain_libc (Some print_each) two_entry_state)
     = Some [''u'', ''v'']"
proof -
  let ?es = "[(''p'', ''u''), (''q'', ''v'')]"
  let ?b = "Some (print_stmt (ident ''i''))"
  let ?visit = "\<lambda>m. visit_entries 3 plain_libc ''i'' ?b (take m ?es) two_entry_state"
  have e: "rec_evaluate_expression (bounded 3 plain_libc) (Some (ident ''a'')) EVAL_PRINT
             two_entry_state = Some (Some (RESULT_ASSOC_ARRAY (Var_slot 0)), two_entry_state)"
    by (simp add: eval_nat_numeral evaluate_expression_def ident_def two_entry_state_def
          get_variable_def initial_state_def)
  have v0: "map_option (\<lambda>sm. deref sm (Var_slot 0)) (?visit 0) = Some ?es"
    by code_simp
  have v1: "map_option (\<lambda>sm. deref sm (Var_slot 0)) (?visit 1) = Some ?es"
    by code_simp
  have v2: "map_option (\<lambda>sm. deref sm (Var_slot 0)) (?visit 2) = Some ?es"
    by code_simp
  have stable: "\<forall>m\<le>length ?es. \<forall>sm. ?visit m = Some sm \<longrightarrow> deref sm (Var_slot 0) = ?es"
  proof (intro allI impI)
    fix m sm
    assume "m \<le> length ?es" and vis: "?visit m = Some sm"
    then have "m = 0 \<or> m = 1 \<or> m = 2" by auto
    then show "deref sm (Var_slot 0) = ?es"
      using v0 v1 v2 vis by (elim disjE) simp_all
  qed
  have eq: "execute_for_statement (bounded 3 plain_libc) plain_libc (Some print_each) two_entry_state
              = visit_entries 3 plain_libc ''i'' ?b ?es two_entry_state"
    unfolding print_each_def for_stmt_def
    by (rule for_statement_visits_entries [OF e stable])
  have out: "map_option stdout (visit_entries 3 plain_libc ''i'' ?b ?es two_entry_state)
               = Some [''u'', ''v'']"
    by code_simp
  from e v0 v1 v2 eq out show ?thesis by simp
qed

text \<open>
  Claim C6 as stated fails when the body changes the array: the loop reads the array
  through its pointer at every turn. With \<open>a\<close> holding two entries when the loop
  expression is evaluated, \<open>for i in a a["r"] = "w" print(i) end\<close> executes its body
  three times.
\<close>

theorem for_loop_follows_growing_array:
  "map_option (\<lambda>s. array (variables s 0))
     (run_statements 3 plain_libc two_entry_array (initial_state []))
     = Some [(''p'', ''u''), (''q'', ''v'')] \<and>
   map_option stdout
     (run_statements 5 plain_libc (two_entry_array @ [grow_and_print_each]) (initial_state []))
     = Some [''u'', ''v'', ''w'']"
  by code_simp

section \<open>The value of a call\<close>






section \<open>Return inside a nested block\<close>

text \<open>
  Claim C3 asks that a \<open>return\<close> inside an \<open>if\<close>, \<open>while\<close> or \<open>for\<close> of a function body ends
  the call. With \<open>def f() if 1 return "early" end return "late" end\<close>, \<open>print(f())\<close>
  prints an error for the \<open>if\<close> statement, which \<open>execute_ast_with_return\<close> does not
  know, and then \<open>late\<close>.
\<close>

theorem nested_return_is_skipped:
  "map_option stdout
     (run_statements 3 plain_libc [print_stmt (call ''f'' None)] (initial_state [early_return_function]))
   = Some [''Error: While executing the AST (with return) - Unknown AST node type'', ''late'']"
  by code_simp

section \<open>Frames and scopes across a call\<close>

text \<open>
  Claim C2 asks that after a user function call the caller's frame is as before. On the
  program \<open>x = 1\<close>, \<open>y = 2\<close>, \<open>f(5)\<close> with \<open>def f(a) return a end\<close> it is not: before the
  call the frame shows \<open>x\<close> and \<open>y\<close>; after it \<open>variable_count\<close> is the callee's 1, and
  \<open>y\<close> is out of sight.
\<close>

theorem call_leaves_callee_count:
  "map_option frame_view (run_statements 3 plain_libc two_variables (initial_state [echo_function]))
     = Some (2, [(''x'', [('''', ''1'')]), (''y'', [('''', ''2'')])]) \<and>
   map_option frame_view
     (run_statements 3 plain_libc (two_variables @ [call ''f'' (Some (literal ''5''))])
        (initial_state [echo_function]))
     = Some (1, [(''x'', [('''', ''1'')])])"
  by code_simp

text \<open>
  Claim C8 asks that the scope depth stays within the maximum, which it does (lemma
  \<open>scope_depth_never_exceeds_maximum\<close>), and that a call leaves the depth as it was, also
  when an argument fails to evaluate, which it does not. Inside a call (depth 1) the call
  \<open>g(nosuch)\<close> returns with depth 0: the error path pops a scope that was never pushed.
  In the whole program \<open>x = 7\<close>, \<open>print(f())\<close> the frame of \<open>f\<close> is replaced by the
  caller's, \<open>return x\<close> reads the caller's \<open>x\<close>, and the pop of \<open>f\<close> itself underflows.
\<close>

theorem failed_argument_pops_without_push:
  "scope_depth inside_call_state = 1 \<and>
   map_option (\<lambda>(r, s). scope_depth s)
     (execute_function_call (bounded 2 plain_libc) plain_libc (call ''g'' (Some (ident ''nosuch'')))
        inside_call_state) = Some 0 \<and>
   map_option stdout
     (run_statements 4 plain_libc
        [assignment (ident ''x'') (literal ''7''), print_stmt (call ''f'' None)]
        (initial_state [identity_function, failing_argument_function]))
   = Some [''Error: Undefined variable '' @ quoted ''nosuch'', ''Error: Failed to evaluate argument'',
           ''Error: Scope stack underflow'', ''7'']"
  by code_simp

section \<open>The built-in mod\<close>

text \<open>
  Claim C9, as amended. For \<open>mod(a, b)\<close> with both arguments evaluating, in arithmetic
  context, to numbers whose casts to \<open>int\<close> are defined and give \<open>i\<close> and \<open>j\<close>, with a
  remainder defined in C (\<open>j\<close> not 0, and not \<open>INT_MIN % -1\<close>), the call returns the C
  remainder of \<open>i\<close> by \<open>j\<close>: the arguments are truncated toward zero and the result has
  the sign of \<open>i\<close>. With fewer than two arguments it prints a diagnostic and returns 0;
  when an argument fails to evaluate it prints a diagnostic and returns 0; when an
  argument is no number it returns 0.
\<close>

theorem mod_truncating_remainder:
  "(arg = Some a \<and> right a \<noteq> None \<and>
    rec_evaluate_expression (bounded n L) arg EVAL_ARITHMETIC s = Some (Some (RESULT_NUMBER x), s1) \<and>
    rec_evaluate_expression (bounded n L) (right a) EVAL_ARITHMETIC s1
      = Some (Some (RESULT_NUMBER y), s2) \<and>
    to_i L x = Some i \<and> to_i L y = Some j \<and> j \<noteq> 0 \<and> (i, j) \<noteq> (INT_MIN, - 1)
    \<longrightarrow> kvstdlib_mod (bounded n L) L arg s
          = Some (return_value (RESULT_NUMBER (of_i L (c_rem i j))), s2)) \<and>
   (arg = None \<or> (arg = Some a \<and> right a = None)
    \<longrightarrow> kvstdlib_mod (bounded n L) L arg s
          = Some (return_zero L, printf ''Error: mod() requires exactly two argument'' s)) \<and>
   (arg = Some a \<and> right a \<noteq> None \<and>
    rec_evaluate_expression (bounded n L) arg EVAL_ARITHMETIC s = Some (None, s1)
    \<longrightarrow> kvstdlib_mod (bounded n L) L arg s
          = Some (return_zero L, printf ''Error: Failed to evaluate 1st argument in mod()'' s1)) \<and>
   (arg = Some a \<and> right a \<noteq> None \<and>
    rec_evaluate_expression (bounded n L) arg EVAL_ARITHMETIC s = Some (Some v1, s1) \<and>
    rec_evaluate_expression (bounded n L) (right a) EVAL_ARITHMETIC s1 = Some (None, s2)
    \<longrightarrow> kvstdlib_mod (bounded n L) L arg s
          = Some (return_zero L, printf ''Error: Failed to evaluate 2nd argument in mod()'' s2)) \<and>
   (arg = Some a \<and> right a \<noteq> None \<and>
    rec_evaluate_expression (bounded n L) arg EVAL_ARITHMETIC s = Some (Some v1, s1) \<and>
    rec_evaluate_expression (bounded n L) (right a) EVAL_ARITHMETIC s1 = Some (Some v2, s2) \<and>
    ((\<forall>x. v1 \<noteq> RESULT_NUMBER x) \<or> (\<forall>y. v2 \<noteq> RESULT_NUMBER y))
    \<longrightarrow> kvstdlib_mod (bounded n L) L arg s = Some (return_zero L, s2))"
  by (auto simp: kvstdlib_mod_def split: eval_result.splits)

theorem mod_truncating_remainder_witness:
  "rec_evaluate_expression (bounded 2 plain_libc) (Some seven_and_two) EVAL_ARITHMETIC (initial_state [])
     = Some (Some (RESULT_NUMBER 7), initial_state []) \<and>
   rec_evaluate_expression (bounded 2 plain_libc) (right seven_and_two) EVAL_ARITHMETIC (initial_state [])
     = Some (Some (RESULT_NUMBER 2), initial_state []) \<and>
   to_i plain_libc 7 = Some 7 \<and> to_i plain_libc 2 = Some 2 \<and>
   kvstdlib_mod (bounded 2 plain_libc) plain_libc (Some seven_and_two) (initial_state [])
     = Some (return_value (RESULT_NUMBER 1), initial_state []) \<and>
   kvstdlib_mod (bounded 2 plain_libc) plain_libc (Some (literal ''7'')) (initial_state [])
     = Some (return_zero plain_libc,
             printf ''Error: mod() requires exactly two argument'' (initial_state [])) \<and>
   rec_evaluate_expression (bounded 2 plain_libc) (Some (then_arg (ident ''nosuch'') (literal ''2'')))
     EVAL_ARITHMETIC (initial_state [])
     = Some (None, printf (''Error: Undefined variable '' @ quoted ''nosuch'') (initial_state [])) \<and>
   kvstdlib_mod (bounded 2 plain_libc) plain_libc (Some (then_arg (ident ''nosuch'') (literal ''2'')))
     (initial_state [])
     = Some (return_zero plain_libc,
             printf ''Error: Failed to evaluate 1st argument in mod()''
               (printf (''Error: Undefined variable '' @ quoted ''nosuch'') (initial_state []))) \<and>
   rec_evaluate_expression (bounded 2 plain_libc) (Some (then_arg (literal ''7'') (ident ''nosuch'')))
     EVAL_ARITHMETIC (initial_state []) = Some (Some (RESULT_NUMBER 7), initial_state []) \<and>
   rec_evaluate_expression (bounded 2 plain_libc) (Some (ident ''nosuch'')) EVAL_ARITHMETIC
     (initial_state [])
     = Some (None, printf (''Error: Undefined variable '' @ quoted ''nosuch'') (initial_state [])) \<and>
   kvstdlib_mod (bounded 2 plain_libc) plain_libc (Some (then_arg (literal ''7'') (ident ''nosuch'')))
     (initial_state [])
     = Some (return_zero plain_libc,
             printf ''Error: Failed to evaluate 2nd argument in mod()''
               (printf (''Error: Undefined variable '' @ quoted ''nosuch'') (initial_state []))) \<and>
   rec_evaluate_expression (bounded 2 plain_libc) (Some (then_arg (literal ''a'') (literal ''2'')))
     EVAL_ARITHMETIC (initial_state []) = Some (Some (RESULT_STRING ''a''), initial_state []) \<and>
   rec_evaluate_expression (bounded 2 plain_libc) (Some (literal ''2'')) EVAL_ARITHMETIC
     (initial_state []) = Some (Some (RESULT_NUMBER 2), initial_state []) \<and>
   kvstdlib_mod (bounded 2 plain_libc) plain_libc (Some (then_arg (literal ''a'') (literal ''2'')))
     (initial_state []) = Some (return_zero plain_libc, initial_state [])"
proof -
  let ?s = "initial_state []"
  let ?u = "printf (''Error: Undefined variable '' @ quoted ''nosuch'') ?s"
  note ev = eval_nat_numeral evaluate_expression_def seven_and_two_def then_arg_def ident_def
    literal_def text_result_def isdigit_def plain_libc_def plain_atof_def get_variable_def
    initial_state_def
  have e1: "rec_evaluate_expression (bounded 2 plain_libc) (Some seven_and_two) EVAL_ARITHMETIC ?s
              = Some (Some (RESULT_NUMBER 7), ?s)"
    by (simp add: ev)
  have e2: "rec_evaluate_expression (bounded 2 plain_libc) (right seven_and_two) EVAL_ARITHMETIC ?s
              = Some (Some (RESULT_NUMBER 2), ?s)"
    by (simp add: ev)
  have c: "to_i plain_libc 7 = Some 7" "to_i plain_libc 2 = Some 2"
    by (simp_all add: plain_libc_def plain_to_i_def INT_MIN_def)
  have r: "right seven_and_two \<noteq> None" "right (literal ''7'') = None"
    by (simp_all add: seven_and_two_def then_arg_def literal_def)
  have m: "of_i plain_libc (c_rem 7 2) = 1"
    by (simp add: plain_libc_def c_rem_def)
  have f1: "rec_evaluate_expression (bounded 2 plain_libc)
              (Some (then_arg (ident ''nosuch'') (literal ''2''))) EVAL_ARITHMETIC ?s = Some (None, ?u)"
    by (simp add: ev)
  have g1: "rec_evaluate_expression (bounded 2 plain_libc)
              (Some (then_arg (literal ''7'') (ident ''nosuch''))) EVAL_ARITHMETIC ?s
              = Some (Some (RESULT_NUMBER 7), ?s)"
    by (simp add: ev)
  have g2: "rec_evaluate_expression (bounded 2 plain_libc) (Some (ident ''nosuch'')) EVAL_ARITHMETIC ?s
              = Some (None, ?u)"
    by (simp add: ev)
  have h1: "rec_evaluate_expression (bounded 2 plain_libc)
              (Some (then_arg (literal ''a'') (literal ''2''))) EVAL_ARITHMETIC ?s
              = Some (Some (RESULT_STRING ''a''), ?s)"
    by (simp add: ev)
  have h2: "rec_evaluate_expression (bounded 2 plain_libc) (Some (literal ''2'')) EVAL_ARITHMETIC ?s
              = Some (Some (RESULT_NUMBER 2), ?s)"
    by (simp add: ev)
  have rr: "right (then_arg a b) = Some b" for a b
    by (simp add: then_arg_def)
  from e1 e2 c r m
    mod_truncating_remainder [of "Some seven_and_two" seven_and_two 2 plain_libc ?s
      7 ?s 2 ?s 7 2]
    mod_truncating_remainder [of "Some (literal ''7'')" "literal ''7''" 2 plain_libc ?s]
  have w1: "kvstdlib_mod (bounded 2 plain_libc) plain_libc (Some seven_and_two) ?s
              = Some (return_value (RESULT_NUMBER 1), ?s)"
    and w2: "kvstdlib_mod (bounded 2 plain_libc) plain_libc (Some (literal ''7'')) ?s
              = Some (return_zero plain_libc, printf ''Error: mod() requires exactly two argument'' ?s)"
    by (simp_all add: INT_MIN_def)
  from f1 rr
    mod_truncating_remainder [where arg = "Some (then_arg (ident ''nosuch'') (literal ''2''))"
      and a = "then_arg (ident ''nosuch'') (literal ''2'')" and n = 2 and L = plain_libc and s = ?s
      and ?s1.0 = ?u]
  have w3: "kvstdlib_mod (bounded 2 plain_libc) plain_libc
              (Some (then_arg (ident ''nosuch'') (literal ''2''))) ?s
              = Some (return_zero plain_libc,
                      printf ''Error: Failed to evaluate 1st argument in mod()'' ?u)"
    by simp
  from g1 g2 rr
    mod_truncating_remainder [where arg = "Some (then_arg (literal ''7'') (ident ''nosuch''))"
      and a = "then_arg (literal ''7'') (ident ''nosuch'')" and n = 2 and L = plain_libc and s = ?s
      and ?s1.0 = ?s and ?v1.0 = "RESULT_NUMBER 7" and ?s2.0 = ?u]
  have w4: "kvstdlib_mod (bounded 2 plain_libc) plain_libc
              (Some (then_arg (literal ''7'') (ident ''nosuch''))) ?s
              = Some (return_zero plain_libc,
                      printf ''Error: Failed to evaluate 2nd argument in mod()'' ?u)"
    by simp
  from h1 h2 rr
    mod_truncating_remainder [where arg = "Some (then_arg (literal ''a'') (literal ''2''))"
      and a = "then_arg (literal ''a'') (literal ''2'')" and n = 2 and L = plain_libc and s = ?s
      and ?s1.0 = ?s and ?v1.0 = "RESULT_STRING ''a''" and ?v2.0 = "RESULT_NUMBER 2" and ?s2.0 = ?s]
  have w5: "kvstdlib_mod (bounded 2 plain_libc) plain_libc
              (Some (then_arg (literal ''a'') (literal ''2''))) ?s
              = Some (return_zero plain_libc, ?s)"
    by simp
  from e1 e2 c w1 w2 f1 w3 g1 g2 w4 h1 h2 w5 show ?thesis by blast
qed

text \<open>
  Claim C9 as stated fails: in \<open>mod((0 - 3) / 2, 2)\<close> the arguments are the numbers
  \<open>-3/2\<close> and 2; the floor of the first is \<open>-2\<close>, and \<open>-2 mod 2\<close> is 0, but the call
  returns \<open>-1\<close>.
\<close>

theorem mod_is_not_floor_mod:
  "map_option fst (rec_evaluate_expression (bounded 4 plain_libc) (Some minus_three_halves_and_two)
      EVAL_ARITHMETIC (initial_state [])) = Some (Some (RESULT_NUMBER (- 3 / 2))) \<and>
   map_option fst (rec_evaluate_expression (bounded 4 plain_libc) (right minus_three_halves_and_two)
      EVAL_ARITHMETIC (initial_state [])) = Some (Some (RESULT_NUMBER 2)) \<and>
   map_option (\<lambda>(r, s). (r, stdout s))
     (kvstdlib_mod (bounded 4 plain_libc) plain_libc (Some minus_three_halves_and_two) (initial_state []))
     = Some (return_value (RESULT_NUMBER (- 1)), []) \<and>
   \<lfloor>- 3 / 2 :: rat\<rfloor> mod \<lfloor>2 :: rat\<rfloor> = 0"
  by code_simp

text \<open>
  \<open>kvstdlib_mod\<close> does not look behind the second argument, and says nothing when an
  argument is no number: \<open>mod(7, 2, 99)\<close> is 1, and \<open>mod("a", 2)\<close> is 0 with no output.
\<close>

lemma mod_ignores_extra_argument:
  "map_option (\<lambda>(r, s). (r, stdout s))
     (kvstdlib_mod (bounded 2 plain_libc) plain_libc
        (Some (then_arg (literal ''7'') (then_arg (literal ''2'') (literal ''99'')))) (initial_state []))
     = Some (return_value (RESULT_NUMBER 1), []) \<and>
   map_option (\<lambda>(r, s). (r, stdout s))
     (kvstdlib_mod (bounded 2 plain_libc) plain_libc
        (Some (then_arg (literal ''a'') (literal ''2''))) (initial_state []))
     = Some (return_zero plain_libc, [])"
  by code_simp

end
